theory Spec2Isabelle
  imports Complex_Main "HOL-Library.Word"
begin

section \<open>The Autotune module of flight/modules/Autotune/autotune.c\<close>

text \<open>
  The module is one task whose body is an endless loop. One iteration of that loop (one
  tick) is the function \<open>AutotuneTick\<close> below; the two local variables that survive an
  iteration (\<open>state\<close> and \<open>lastUpdateTime\<close>) are the record \<open>task\<close>, and the UAVObjects
  the task reads and writes are the record \<open>world\<close>. Every access to a UAVObject, the
  watchdog refresh and the delay are appended to the \<open>trace\<close> of the world, in program
  order, so that what a tick reads and writes, and in which order, can be stated.
\<close>

subsection \<open>C floats\<close>

text \<open>
  A C \<open>float\<close> is modelled as a real number or one of the three kinds of value that are
  not finite. Arithmetic on finite values is exact (rounding, overflow and underflow of
  binary32 are not modelled) and zero carries no sign: a finite value that is not zero,
  divided by zero, is the infinity of the sign of the numerator, and zero divided by zero
  is NaN, as IEEE 754 division by +0 gives. A value that is not finite in the model is
  not finite in binary32 either (there with either sign); a value that is finite in the
  model can overflow to an infinity in binary32, so no theorem below concludes for all
  inputs that a computed value is finite.
\<close>

datatype cfloat = Finite real | PInf | MInf | NaN

fun is_finite :: "cfloat \<Rightarrow> bool" where
  "is_finite (Finite x) = True"
| "is_finite PInf = False"
| "is_finite MInf = False"
| "is_finite NaN = False"

fun fsgn :: "cfloat \<Rightarrow> real" where
  "fsgn (Finite x) = sgn x"
| "fsgn PInf = 1"
| "fsgn MInf = - 1"
| "fsgn NaN = 0"

definition inf_of_sign :: "real \<Rightarrow> cfloat" where
  "inf_of_sign s = (if 0 < s then PInf else if s < 0 then MInf else NaN)"

fun fmul :: "cfloat \<Rightarrow> cfloat \<Rightarrow> cfloat" where
  "fmul (Finite x) (Finite y) = Finite (x * y)"
| "fmul NaN b = NaN"
| "fmul a NaN = NaN"
| "fmul a b = inf_of_sign (fsgn a * fsgn b)"

fun fdiv :: "cfloat \<Rightarrow> cfloat \<Rightarrow> cfloat" where
  "fdiv (Finite x) (Finite y) = (if y = 0 then inf_of_sign (sgn x) else Finite (x / y))"
| "fdiv NaN b = NaN"
| "fdiv a NaN = NaN"
| "fdiv (Finite x) PInf = Finite 0"
| "fdiv (Finite x) MInf = Finite 0"
| "fdiv a (Finite y) = inf_of_sign (fsgn a * (if 0 \<le> y then 1 else - 1))"
| "fdiv a b = NaN"

text \<open>The comparisons \<open>a < b\<close> and \<open>a <= b\<close> of C: false as soon as one side is NaN.\<close>

fun fless :: "cfloat \<Rightarrow> cfloat \<Rightarrow> bool" where
  "fless (Finite x) (Finite y) = (x < y)"
| "fless NaN b = False"
| "fless a NaN = False"
| "fless a MInf = False"
| "fless PInf b = False"
| "fless a b = True"

fun fle :: "cfloat \<Rightarrow> cfloat \<Rightarrow> bool" where
  "fle (Finite x) (Finite y) = (x \<le> y)"
| "fle NaN b = False"
| "fle a NaN = False"
| "fle MInf b = True"
| "fle a PInf = True"
| "fle a b = False"

text \<open>\<open>M_PI\<close> is the decimal literal of math.h, not the number \<open>pi\<close>.\<close>

definition M_PI :: real where
  "M_PI = 3.14159265358979323846"

subsection \<open>The UAVObjects the task uses\<close>

text \<open>
  Modelled from the spec: the headers of the UAVObjects (flightstatus.h,
  stabilizationdesired.h, stabilizationsettings.h, manualcontrolcommand.h,
  relaytuningsettings.h, relaytuning.h) are generated from XML and are not among the
  sources. The records below have the fields autotune.c uses, every number a
  \<open>cfloat\<close>. The enumerations have the constants autotune.c names;
  \<open>FLIGHTSTATUS_ARMED_ARMING\<close> and \<open>STABILIZATIONDESIRED_STABILIZATIONMODE_NONE\<close> stand
  for the values of these fields the task never names. The element indices (roll, pitch,
  yaw; Kp, Ki) number the elements in the order of the object definitions; the arrays
  are lists, and a theorem that reads an element back assumes the index within the list.
\<close>

datatype ArmedOptions =
  FLIGHTSTATUS_ARMED_DISARMED | FLIGHTSTATUS_ARMED_ARMING | FLIGHTSTATUS_ARMED_ARMED

text \<open>
  Modelled from the spec: the flight mode is an enumeration of which the task only tells
  AUTOTUNE from every other mode (here numbered).
\<close>

datatype FlightModeOptions =
  FLIGHTSTATUS_FLIGHTMODE_AUTOTUNE | FLIGHTSTATUS_FLIGHTMODE_OTHER nat

record FlightStatusData =
  Armed :: ArmedOptions
  FlightMode :: FlightModeOptions

datatype StabilizationModeOptions =
  STABILIZATIONDESIRED_STABILIZATIONMODE_NONE
| STABILIZATIONDESIRED_STABILIZATIONMODE_RATE
| STABILIZATIONDESIRED_STABILIZATIONMODE_ATTITUDE
| STABILIZATIONDESIRED_STABILIZATIONMODE_RELAYRATE
| STABILIZATIONDESIRED_STABILIZATIONMODE_RELAYATTITUDE

abbreviation (input) STABILIZATIONDESIRED_STABILIZATIONMODE_ROLL :: nat where
  "STABILIZATIONDESIRED_STABILIZATIONMODE_ROLL \<equiv> 0"

abbreviation (input) STABILIZATIONDESIRED_STABILIZATIONMODE_PITCH :: nat where
  "STABILIZATIONDESIRED_STABILIZATIONMODE_PITCH \<equiv> 1"

abbreviation (input) STABILIZATIONDESIRED_STABILIZATIONMODE_YAW :: nat where
  "STABILIZATIONDESIRED_STABILIZATIONMODE_YAW \<equiv> 2"

record StabilizationDesiredData =
  sd_Roll :: cfloat
  sd_Pitch :: cfloat
  sd_Yaw :: cfloat
  sd_Throttle :: cfloat
  StabilizationMode :: "StabilizationModeOptions list"

abbreviation (input) STABILIZATIONSETTINGS_MANUALRATE_ROLL :: nat where
  "STABILIZATIONSETTINGS_MANUALRATE_ROLL \<equiv> 0"

abbreviation (input) STABILIZATIONSETTINGS_MANUALRATE_PITCH :: nat where
  "STABILIZATIONSETTINGS_MANUALRATE_PITCH \<equiv> 1"

abbreviation (input) STABILIZATIONSETTINGS_MANUALRATE_YAW :: nat where
  "STABILIZATIONSETTINGS_MANUALRATE_YAW \<equiv> 2"

abbreviation (input) STABILIZATIONSETTINGS_ROLLRATEPID_KP :: nat where
  "STABILIZATIONSETTINGS_ROLLRATEPID_KP \<equiv> 0"

abbreviation (input) STABILIZATIONSETTINGS_ROLLRATEPID_KI :: nat where
  "STABILIZATIONSETTINGS_ROLLRATEPID_KI \<equiv> 1"

abbreviation (input) STABILIZATIONSETTINGS_ROLLPI_KP :: nat where
  "STABILIZATIONSETTINGS_ROLLPI_KP \<equiv> 0"

abbreviation (input) STABILIZATIONSETTINGS_ROLLPI_KI :: nat where
  "STABILIZATIONSETTINGS_ROLLPI_KI \<equiv> 1"

record StabilizationSettingsData =
  ManualRate :: "cfloat list"
  RollMax :: cfloat
  PitchMax :: cfloat
  RollRatePID :: "cfloat list"
  PitchRatePID :: "cfloat list"
  RollPI :: "cfloat list"
  PitchPI :: "cfloat list"

record ManualControlCommandData =
  mc_Roll :: cfloat
  mc_Pitch :: cfloat
  mc_Yaw :: cfloat
  mc_Throttle :: cfloat

datatype RelayModeOptions = RELAYTUNINGSETTINGS_MODE_RATE | RELAYTUNINGSETTINGS_MODE_ATTITUDE

datatype RelayBehaviorOptions =
  RELAYTUNINGSETTINGS_BEHAVIOR_MEASURE
| RELAYTUNINGSETTINGS_BEHAVIOR_COMPUTE
| RELAYTUNINGSETTINGS_BEHAVIOR_SAVE

record RelayTuningSettingsData =
  Mode :: RelayModeOptions
  Behavior :: RelayBehaviorOptions

record RelayTuningData =
  Period :: "cfloat list"
  Gain :: "cfloat list"

subsection \<open>The world of the task and its accessors\<close>

datatype uavobj =
  FlightStatusObj | StabilizationDesiredObj | StabilizationSettingsObj
| ManualControlSettingsObj | ManualControlCommandObj | RelayTuningSettingsObj
| RelayTuningObj

datatype event = Get uavobj | Set uavobj | Save uavobj | WdgUpdate | Delay nat

text \<open>
  \<open>tickCount\<close> is what \<open>xTaskGetTickCount\<close> returns, a 32-bit \<open>portTickType\<close>; it is
  taken not to advance within one iteration. The content of ManualControlSettings is
  read and never used, so only the read is recorded.
\<close>

record world =
  FlightStatus :: FlightStatusData
  StabilizationDesired :: StabilizationDesiredData
  StabilizationSettings :: StabilizationSettingsData
  ManualControlCommand :: ManualControlCommandData
  RelayTuningSettings :: RelayTuningSettingsData
  RelayTuning :: RelayTuningData
  tickCount :: "32 word"
  trace :: "event list"

definition emit :: "event \<Rightarrow> world \<Rightarrow> world" where
  "emit e w = w\<lparr>trace := trace w @ [e]\<rparr>"

definition PIOS_WDG_UpdateFlag :: "world \<Rightarrow> world" where
  "PIOS_WDG_UpdateFlag w = emit WdgUpdate w"

definition vTaskDelay :: "nat \<Rightarrow> world \<Rightarrow> world" where
  "vTaskDelay n w = emit (Delay n) w"

definition xTaskGetTickCount :: "world \<Rightarrow> 32 word" where
  "xTaskGetTickCount w = tickCount w"

definition FlightStatusGet :: "world \<Rightarrow> FlightStatusData \<times> world" where
  "FlightStatusGet w = (FlightStatus w, emit (Get FlightStatusObj) w)"

definition StabilizationDesiredGet :: "world \<Rightarrow> StabilizationDesiredData \<times> world" where
  "StabilizationDesiredGet w = (StabilizationDesired w, emit (Get StabilizationDesiredObj) w)"

definition StabilizationDesiredSet :: "StabilizationDesiredData \<Rightarrow> world \<Rightarrow> world" where
  "StabilizationDesiredSet d w = emit (Set StabilizationDesiredObj) (w\<lparr>StabilizationDesired := d\<rparr>)"

definition StabilizationSettingsGet :: "world \<Rightarrow> StabilizationSettingsData \<times> world" where
  "StabilizationSettingsGet w = (StabilizationSettings w, emit (Get StabilizationSettingsObj) w)"

definition StabilizationSettingsSet :: "StabilizationSettingsData \<Rightarrow> world \<Rightarrow> world" where
  "StabilizationSettingsSet d w = emit (Set StabilizationSettingsObj) (w\<lparr>StabilizationSettings := d\<rparr>)"

definition ManualControlSettingsGet :: "world \<Rightarrow> world" where
  "ManualControlSettingsGet w = emit (Get ManualControlSettingsObj) w"

definition ManualControlCommandGet :: "world \<Rightarrow> ManualControlCommandData \<times> world" where
  "ManualControlCommandGet w = (ManualControlCommand w, emit (Get ManualControlCommandObj) w)"

definition RelayTuningSettingsGet :: "world \<Rightarrow> RelayTuningSettingsData \<times> world" where
  "RelayTuningSettingsGet w = (RelayTuningSettings w, emit (Get RelayTuningSettingsObj) w)"

definition RelayTuningGet :: "world \<Rightarrow> RelayTuningData \<times> world" where
  "RelayTuningGet w = (RelayTuning w, emit (Get RelayTuningObj) w)"

definition UAVObjSave :: "uavobj \<Rightarrow> world \<Rightarrow> world" where
  "UAVObjSave obj w = emit (Save obj) w"

subsection \<open>update_stabilization_settings\<close>

text \<open>
  The local variables of one pass of the loop over the axes: \<open>wu\<close>, \<open>wc\<close>, \<open>zc\<close>, \<open>kpu\<close>,
  \<open>kp\<close>, \<open>ki\<close>, \<open>wc2\<close>, \<open>kp2\<close> and \<open>ki2\<close>, computed from \<open>Period[i]\<close> and \<open>Gain[i]\<close>.
\<close>

record axis_locals =
  wu :: cfloat
  wc :: cfloat
  zc :: cfloat
  kpu :: cfloat
  kp :: cfloat
  ki :: cfloat
  wc2 :: cfloat
  kp2 :: cfloat
  ki2 :: cfloat

definition gain_ratio_r :: cfloat where
  "gain_ratio_r = fdiv (Finite 1) (Finite 3)"

definition zero_ratio_r :: cfloat where
  "zero_ratio_r = fdiv (Finite 1) (Finite 3)"

definition gain_ratio_p :: cfloat where
  "gain_ratio_p = fdiv (Finite 1) (Finite 5)"

definition zero_ratio_p :: cfloat where
  "zero_ratio_p = fdiv (Finite 1) (Finite 5)"

definition axis_compute :: "cfloat \<Rightarrow> cfloat \<Rightarrow> axis_locals" where
  "axis_compute period gain =
     (let wu = fdiv (fmul (fmul (Finite 1000) (Finite 2)) (Finite M_PI)) period;
          wc = fmul wu gain_ratio_r;
          zc = fmul wc zero_ratio_r;
          kpu = fdiv (fdiv (Finite 4) (Finite M_PI)) gain;
          kp = fmul kpu gain_ratio_r;
          ki = fmul zc kp;
          wc2 = fmul wc gain_ratio_p;
          kp2 = wc2;
          ki2 = fmul (fmul wc2 zero_ratio_p) kp2
      in \<lparr>wu = wu, wc = wc, zc = zc, kpu = kpu, kp = kp, ki = ki,
          wc2 = wc2, kp2 = kp2, ki2 = ki2\<rparr>)"

text \<open>The body of the loop for index \<open>i\<close>: the computation, then \<open>switch (i)\<close>.\<close>

definition axis_body :: "RelayTuningData \<Rightarrow> nat \<Rightarrow> StabilizationSettingsData \<Rightarrow> StabilizationSettingsData" where
  "axis_body relayTuning i stabSettings =
     (let l = axis_compute (Period relayTuning ! i) (Gain relayTuning ! i)
      in if i = 0 then
           stabSettings\<lparr>
             RollRatePID := (RollRatePID stabSettings)
               [STABILIZATIONSETTINGS_ROLLRATEPID_KP := kp l,
                STABILIZATIONSETTINGS_ROLLRATEPID_KI := ki l],
             RollPI := (RollPI stabSettings)
               [STABILIZATIONSETTINGS_ROLLPI_KP := kp2 l,
                STABILIZATIONSETTINGS_ROLLPI_KI := ki2 l]\<rparr>
         else if i = 1 then
           stabSettings\<lparr>
             PitchRatePID := (PitchRatePID stabSettings)
               [STABILIZATIONSETTINGS_ROLLRATEPID_KP := kp l,
                STABILIZATIONSETTINGS_ROLLRATEPID_KI := ki l],
             PitchPI := (PitchPI stabSettings)
               [STABILIZATIONSETTINGS_ROLLPI_KP := kp2 l,
                STABILIZATIONSETTINGS_ROLLPI_KI := ki2 l]\<rparr>
         else stabSettings)"

text \<open>\<open>for (uint i = 0; i < 2; i++)\<close>\<close>

definition compute_gains :: "RelayTuningData \<Rightarrow> StabilizationSettingsData \<Rightarrow> StabilizationSettingsData" where
  "compute_gains relayTuning stabSettings =
     fold (axis_body relayTuning) [0 ..< 2] stabSettings"

definition update_stabilization_settings :: "world \<Rightarrow> world" where
  "update_stabilization_settings w0 =
     (let (relayTuning, w1) = RelayTuningGet w0;
          (relaySettings, w2) = RelayTuningSettingsGet w1;
          (stabSettings, w3) = StabilizationSettingsGet w2;
          stabSettings = compute_gains relayTuning stabSettings
      in case Behavior relaySettings of
           RELAYTUNINGSETTINGS_BEHAVIOR_MEASURE \<Rightarrow> w3
         | RELAYTUNINGSETTINGS_BEHAVIOR_COMPUTE \<Rightarrow> StabilizationSettingsSet stabSettings w3
         | RELAYTUNINGSETTINGS_BEHAVIOR_SAVE \<Rightarrow>
             UAVObjSave StabilizationSettingsObj (StabilizationSettingsSet stabSettings w3))"

subsection \<open>AutotuneTask: one iteration of the loop\<close>

datatype AUTOTUNE_STATE = AT_INIT | AT_START | AT_ROLL | AT_PITCH | AT_FINISHED | AT_SET

record task =
  state :: AUTOTUNE_STATE
  lastUpdateTime :: "32 word"

definition PREPARE_TIME :: "32 word" where
  "PREPARE_TIME = 2000"

definition MEAURE_TIME :: "32 word" where
  "MEAURE_TIME = 30000"

text \<open>
  The record the task builds before the \<open>switch\<close>: roll and pitch in rate or attitude
  mode after \<open>RelayTuningSettings.Mode\<close>, yaw in rate mode, the throttle as it is.
\<close>

definition manual_desired ::
  "bool \<Rightarrow> ManualControlCommandData \<Rightarrow> StabilizationSettingsData \<Rightarrow> StabilizationDesiredData \<Rightarrow> StabilizationDesiredData" where
  "manual_desired rate manualControl stabSettings stabDesired =
     (let stabDesired =
            (if rate then
               stabDesired\<lparr>
                 StabilizationMode := (StabilizationMode stabDesired)
                   [STABILIZATIONDESIRED_STABILIZATIONMODE_ROLL := STABILIZATIONDESIRED_STABILIZATIONMODE_RATE,
                    STABILIZATIONDESIRED_STABILIZATIONMODE_PITCH := STABILIZATIONDESIRED_STABILIZATIONMODE_RATE],
                 sd_Roll := fmul (mc_Roll manualControl) (ManualRate stabSettings ! STABILIZATIONSETTINGS_MANUALRATE_ROLL),
                 sd_Pitch := fmul (mc_Pitch manualControl) (ManualRate stabSettings ! STABILIZATIONSETTINGS_MANUALRATE_PITCH)\<rparr>
             else
               stabDesired\<lparr>
                 StabilizationMode := (StabilizationMode stabDesired)
                   [STABILIZATIONDESIRED_STABILIZATIONMODE_ROLL := STABILIZATIONDESIRED_STABILIZATIONMODE_ATTITUDE,
                    STABILIZATIONDESIRED_STABILIZATIONMODE_PITCH := STABILIZATIONDESIRED_STABILIZATIONMODE_ATTITUDE],
                 sd_Roll := fmul (mc_Roll manualControl) (RollMax stabSettings),
                 sd_Pitch := fmul (mc_Pitch manualControl) (PitchMax stabSettings)\<rparr>)
      in stabDesired\<lparr>
           StabilizationMode := (StabilizationMode stabDesired)
             [STABILIZATIONDESIRED_STABILIZATIONMODE_YAW := STABILIZATIONDESIRED_STABILIZATIONMODE_RATE],
           sd_Yaw := fmul (mc_Yaw manualControl) (ManualRate stabSettings ! STABILIZATIONSETTINGS_MANUALRATE_YAW),
           sd_Throttle := mc_Throttle manualControl\<rparr>)"

definition relay_mode :: "bool \<Rightarrow> StabilizationModeOptions" where
  "relay_mode rate =
     (if rate then STABILIZATIONDESIRED_STABILIZATIONMODE_RELAYRATE
      else STABILIZATIONDESIRED_STABILIZATIONMODE_RELAYATTITUDE)"

text \<open>\<open>switch (state)\<close>: the new task variables, the record to write, the world.\<close>

definition phase_logic ::
  "task \<Rightarrow> FlightStatusData \<Rightarrow> bool \<Rightarrow> StabilizationDesiredData \<Rightarrow> world
     \<Rightarrow> task \<times> StabilizationDesiredData \<times> world" where
  "phase_logic t flightStatus rate stabDesired w =
     (case state t of
        AT_INIT \<Rightarrow>
          (let t = t\<lparr>lastUpdateTime := xTaskGetTickCount w\<rparr>
           in if Armed flightStatus = FLIGHTSTATUS_ARMED_ARMED \<and> fless (Finite 0) (sd_Throttle stabDesired)
              then (t\<lparr>state := AT_START\<rparr>, stabDesired, w)
              else (t, stabDesired, w))
      | AT_START \<Rightarrow>
          (let diffTime = xTaskGetTickCount w - lastUpdateTime t
           in if diffTime > PREPARE_TIME
              then (t\<lparr>state := AT_ROLL, lastUpdateTime := xTaskGetTickCount w\<rparr>, stabDesired, w)
              else (t, stabDesired, w))
      | AT_ROLL \<Rightarrow>
          (let diffTime = xTaskGetTickCount w - lastUpdateTime t;
               stabDesired = stabDesired\<lparr>StabilizationMode := (StabilizationMode stabDesired)
                 [STABILIZATIONDESIRED_STABILIZATIONMODE_ROLL := relay_mode rate]\<rparr>
           in if diffTime > MEAURE_TIME
              then (t\<lparr>state := AT_PITCH, lastUpdateTime := xTaskGetTickCount w\<rparr>, stabDesired, w)
              else (t, stabDesired, w))
      | AT_PITCH \<Rightarrow>
          (let diffTime = xTaskGetTickCount w - lastUpdateTime t;
               stabDesired = stabDesired\<lparr>StabilizationMode := (StabilizationMode stabDesired)
                 [STABILIZATIONDESIRED_STABILIZATIONMODE_PITCH := relay_mode rate]\<rparr>
           in if diffTime > MEAURE_TIME
              then (t\<lparr>state := AT_FINISHED, lastUpdateTime := xTaskGetTickCount w\<rparr>, stabDesired, w)
              else (t, stabDesired, w))
      | AT_FINISHED \<Rightarrow>
          (if Armed flightStatus = FLIGHTSTATUS_ARMED_DISARMED \<and> fle (sd_Throttle stabDesired) (Finite 0)
           then (t\<lparr>state := AT_SET\<rparr>, stabDesired, w)
           else (t, stabDesired, w))
      | AT_SET \<Rightarrow> (t\<lparr>state := AT_INIT\<rparr>, stabDesired, update_stabilization_settings w))"

definition AutotuneTick :: "task \<Rightarrow> world \<Rightarrow> task \<times> world" where
  "AutotuneTick t w0 =
     (let w1 = PIOS_WDG_UpdateFlag w0;
          (flightStatus, w2) = FlightStatusGet w1
      in if FlightMode flightStatus \<noteq> FLIGHTSTATUS_FLIGHTMODE_AUTOTUNE
         then (t\<lparr>state := AT_INIT\<rparr>, vTaskDelay 50 w2)
         else
           (let (stabDesired, w3) = StabilizationDesiredGet w2;
                (stabSettings, w4) = StabilizationSettingsGet w3;
                w5 = ManualControlSettingsGet w4;
                (manualControl, w6) = ManualControlCommandGet w5;
                (relaySettings, w7) = RelayTuningSettingsGet w6;
                rate = (Mode relaySettings = RELAYTUNINGSETTINGS_MODE_RATE);
                stabDesired = manual_desired rate manualControl stabSettings stabDesired;
                (t', stabDesired, w8) = phase_logic t flightStatus rate stabDesired w7;
                w9 = StabilizationDesiredSet stabDesired w8
            in (t', vTaskDelay 10 w9)))"

text \<open>The events one tick appends to the trace.\<close>

definition tick_events :: "task \<Rightarrow> world \<Rightarrow> event list" where
  "tick_events t w = drop (length (trace w)) (trace (snd (AutotuneTick t w)))"

text \<open>
  The events every tick in AUTOTUNE mode starts with, the world after them, and the
  events the AT_SET case adds.
\<close>

definition autotune_reads :: "event list" where
  "autotune_reads = [WdgUpdate, Get FlightStatusObj, Get StabilizationDesiredObj,
     Get StabilizationSettingsObj, Get ManualControlSettingsObj, Get ManualControlCommandObj,
     Get RelayTuningSettingsObj]"

definition reads_done :: "world \<Rightarrow> world" where
  "reads_done w = w\<lparr>trace := trace w @ autotune_reads\<rparr>"

definition commit_events :: "RelayBehaviorOptions \<Rightarrow> event list" where
  "commit_events b = [Get RelayTuningObj, Get RelayTuningSettingsObj, Get StabilizationSettingsObj] @
     (case b of
        RELAYTUNINGSETTINGS_BEHAVIOR_MEASURE \<Rightarrow> []
      | RELAYTUNINGSETTINGS_BEHAVIOR_COMPUTE \<Rightarrow> [Set StabilizationSettingsObj]
      | RELAYTUNINGSETTINGS_BEHAVIOR_SAVE \<Rightarrow> [Set StabilizationSettingsObj, Save StabilizationSettingsObj])"

subsection \<open>Notions of the specification\<close>

fun is_relay :: "StabilizationModeOptions \<Rightarrow> bool" where
  "is_relay STABILIZATIONDESIRED_STABILIZATIONMODE_RELAYRATE = True"
| "is_relay STABILIZATIONDESIRED_STABILIZATIONMODE_RELAYATTITUDE = True"
| "is_relay m = False"

definition no_relay_axis :: "StabilizationDesiredData \<Rightarrow> bool" where
  "no_relay_axis d = (\<not> list_ex is_relay (StabilizationMode d))"

text \<open>The order of the phases in the specification: INIT, START, ROLL, PITCH, FINISHED, COMMIT, INIT.\<close>

fun spec_successor :: "AUTOTUNE_STATE \<Rightarrow> AUTOTUNE_STATE" where
  "spec_successor AT_INIT = AT_START"
| "spec_successor AT_START = AT_ROLL"
| "spec_successor AT_ROLL = AT_PITCH"
| "spec_successor AT_PITCH = AT_FINISHED"
| "spec_successor AT_FINISHED = AT_SET"
| "spec_successor AT_SET = AT_INIT"

text \<open>
  The math engine as the specification writes it, a function of the period, the gain
  and the four ratios, to the gains \<open>(kp_rate, ki_rate, kp_att, ki_att)\<close>. The
  specification's pi is read as the constant of the program.
\<close>

definition spec_math_engine ::
  "cfloat \<Rightarrow> cfloat \<Rightarrow> cfloat \<Rightarrow> cfloat \<Rightarrow> cfloat \<Rightarrow> cfloat \<Rightarrow> cfloat \<times> cfloat \<times> cfloat \<times> cfloat" where
  "spec_math_engine Tu a gain_ratio_inner zero_ratio_inner gain_ratio_outer zero_ratio_outer =
     (let wu = fdiv (fmul (fmul (Finite 1000) (Finite 2)) (Finite M_PI)) Tu;
          wc = fmul wu gain_ratio_inner;
          zc = fmul wc zero_ratio_inner;
          kpu = fdiv (fdiv (Finite 4) (Finite M_PI)) a;
          kp_rate = fmul kpu gain_ratio_inner;
          ki_rate = fmul zc kp_rate;
          wc2 = fmul wc gain_ratio_outer;
          kp_att = wc2;
          ki_att = fmul (fmul wc2 zero_ratio_outer) kp_att
      in (kp_rate, ki_rate, kp_att, ki_att))"

text \<open>\<open>approx tol v r\<close>: the float \<open>v\<close> is finite and within \<open>tol\<close> of \<open>r\<close>.\<close>

fun approx :: "real \<Rightarrow> cfloat \<Rightarrow> real \<Rightarrow> bool" where
  "approx tol (Finite x) r = (\<bar>x - r\<bar> \<le> tol)"
| "approx tol v r = False"

subsection \<open>Concrete executions\<close>

definition demo_settings :: StabilizationSettingsData where
  "demo_settings =
     \<lparr>ManualRate = [Finite 150, Finite 150, Finite 150],
      RollMax = Finite 55, PitchMax = Finite 55,
      RollRatePID = [Finite 2, Finite 0, Finite 0],
      PitchRatePID = [Finite 2, Finite 0, Finite 0],
      RollPI = [Finite 2, Finite 0, Finite 50],
      PitchPI = [Finite 2, Finite 0, Finite 50]\<rparr>"

text \<open>Armed, in AUTOTUNE mode, half throttle; both axes measured at 500 ms and gain 0.3.\<close>

definition demo_world :: world where
  "demo_world =
     \<lparr>FlightStatus = \<lparr>Armed = FLIGHTSTATUS_ARMED_ARMED, FlightMode = FLIGHTSTATUS_FLIGHTMODE_AUTOTUNE\<rparr>,
      StabilizationDesired =
        \<lparr>sd_Roll = Finite 0, sd_Pitch = Finite 0, sd_Yaw = Finite 0, sd_Throttle = Finite 0,
         StabilizationMode = [STABILIZATIONDESIRED_STABILIZATIONMODE_NONE,
           STABILIZATIONDESIRED_STABILIZATIONMODE_NONE, STABILIZATIONDESIRED_STABILIZATIONMODE_NONE]\<rparr>,
      StabilizationSettings = demo_settings,
      ManualControlCommand =
        \<lparr>mc_Roll = Finite 0, mc_Pitch = Finite 0, mc_Yaw = Finite (1 / 2), mc_Throttle = Finite (1 / 2)\<rparr>,
      RelayTuningSettings = \<lparr>Mode = RELAYTUNINGSETTINGS_MODE_RATE, Behavior = RELAYTUNINGSETTINGS_BEHAVIOR_COMPUTE\<rparr>,
      RelayTuning = \<lparr>Period = [Finite 500, Finite 500, Finite 0], Gain = [Finite (3 / 10), Finite (3 / 10), Finite 0]\<rparr>,
      tickCount = 0,
      trace = []\<rparr>"

text \<open>A tick of the roll measurement, after which the pilot leaves AUTOTUNE mode.\<close>

definition roll_tick :: "task \<times> world" where
  "roll_tick = AutotuneTick \<lparr>state = AT_ROLL, lastUpdateTime = 0\<rparr> demo_world"

definition mode_left :: world where
  "mode_left = (snd roll_tick)\<lparr>FlightStatus :=
     \<lparr>Armed = FLIGHTSTATUS_ARMED_ARMED, FlightMode = FLIGHTSTATUS_FLIGHTMODE_OTHER 0\<rparr>\<rparr>"

definition gate_tick :: "task \<times> world" where
  "gate_tick = AutotuneTick (fst roll_tick) mode_left"

text \<open>
  Landed and disarmed in phase FINISHED; before the next tick the vehicle is armed
  again and the throttle raised.
\<close>

definition landed_world :: world where
  "landed_world = demo_world\<lparr>
     FlightStatus := \<lparr>Armed = FLIGHTSTATUS_ARMED_DISARMED, FlightMode = FLIGHTSTATUS_FLIGHTMODE_AUTOTUNE\<rparr>,
     ManualControlCommand := \<lparr>mc_Roll = Finite 0, mc_Pitch = Finite 0, mc_Yaw = Finite 0, mc_Throttle = Finite 0\<rparr>\<rparr>"

definition finished_tick :: "task \<times> world" where
  "finished_tick = AutotuneTick \<lparr>state = AT_FINISHED, lastUpdateTime = 0\<rparr> landed_world"

definition rearm :: "world \<Rightarrow> world" where
  "rearm w = w\<lparr>
     FlightStatus := \<lparr>Armed = FLIGHTSTATUS_ARMED_ARMED, FlightMode = FLIGHTSTATUS_FLIGHTMODE_AUTOTUNE\<rparr>,
     ManualControlCommand := \<lparr>mc_Roll = Finite 0, mc_Pitch = Finite 0, mc_Yaw = Finite 0, mc_Throttle = Finite (1 / 2)\<rparr>\<rparr>"

definition rearmed_world :: world where
  "rearmed_world = rearm (snd finished_tick)"

definition commit_tick :: "task \<times> world" where
  "commit_tick = AutotuneTick (fst finished_tick) rearmed_world"


definition demo_at :: "32 word \<Rightarrow> world" where
  "demo_at n = demo_world\<lparr>tickCount := n\<rparr>"

definition zero_measured_world :: world where
  "zero_measured_world = demo_world\<lparr>RelayTuning :=
     \<lparr>Period = [Finite 0, Finite 500, Finite 0], Gain = [Finite (3 / 10), Finite 0, Finite 0]\<rparr>\<rparr>"

section \<open>How one tick acts\<close>

lemmas accessor_defs = emit_def PIOS_WDG_UpdateFlag_def vTaskDelay_def xTaskGetTickCount_def
  FlightStatusGet_def StabilizationDesiredGet_def StabilizationDesiredSet_def
  StabilizationSettingsGet_def StabilizationSettingsSet_def ManualControlSettingsGet_def
  ManualControlCommandGet_def RelayTuningSettingsGet_def RelayTuningGet_def UAVObjSave_def

lemma upt_0_2: "[0 ..< 2] = [0, Suc 0]"
  by (simp add: upt_rec numeral_2_eq_2)

lemma compute_gains_unfold:
  "compute_gains rt ss = axis_body rt 1 (axis_body rt 0 ss)"
  by (simp add: compute_gains_def upt_0_2)

lemma tick_gate:
  "FlightMode (FlightStatus w) \<noteq> FLIGHTSTATUS_FLIGHTMODE_AUTOTUNE \<Longrightarrow>
   AutotuneTick t w =
     (t\<lparr>state := AT_INIT\<rparr>, w\<lparr>trace := trace w @ [WdgUpdate, Get FlightStatusObj, Delay 50]\<rparr>)"
  by (simp add: AutotuneTick_def accessor_defs)

lemma tick_autotune:
  "FlightMode (FlightStatus w) = FLIGHTSTATUS_FLIGHTMODE_AUTOTUNE \<Longrightarrow>
   AutotuneTick t w =
     (let rate = (Mode (RelayTuningSettings w) = RELAYTUNINGSETTINGS_MODE_RATE);
          r = phase_logic t (FlightStatus w) rate
                (manual_desired rate (ManualControlCommand w) (StabilizationSettings w) (StabilizationDesired w))
                (reads_done w);
          w8 = snd (snd r)
      in (fst r, w8\<lparr>StabilizationDesired := fst (snd r),
                     trace := trace w8 @ [Set StabilizationDesiredObj, Delay 10]\<rparr>))"
  by (simp add: AutotuneTick_def accessor_defs reads_done_def autotune_reads_def Let_def split_def)

lemma update_trace:
  "update_stabilization_settings w =
    (case Behavior (RelayTuningSettings w) of
       RELAYTUNINGSETTINGS_BEHAVIOR_MEASURE \<Rightarrow>
         w\<lparr>trace := trace w @ [Get RelayTuningObj, Get RelayTuningSettingsObj, Get StabilizationSettingsObj]\<rparr>
     | RELAYTUNINGSETTINGS_BEHAVIOR_COMPUTE \<Rightarrow>
         w\<lparr>StabilizationSettings := compute_gains (RelayTuning w) (StabilizationSettings w),
           trace := trace w @ [Get RelayTuningObj, Get RelayTuningSettingsObj, Get StabilizationSettingsObj,
              Set StabilizationSettingsObj]\<rparr>
     | RELAYTUNINGSETTINGS_BEHAVIOR_SAVE \<Rightarrow>
         w\<lparr>StabilizationSettings := compute_gains (RelayTuning w) (StabilizationSettings w),
           trace := trace w @ [Get RelayTuningObj, Get RelayTuningSettingsObj, Get StabilizationSettingsObj,
              Set StabilizationSettingsObj, Save StabilizationSettingsObj]\<rparr>)"
  by (simp add: update_stabilization_settings_def accessor_defs Let_def split: RelayBehaviorOptions.splits)

lemma manual_desired_Throttle [simp]:
  "sd_Throttle (manual_desired rate mc ss sd) = mc_Throttle mc"
  by (simp add: manual_desired_def Let_def)

lemma phase_logic_state:
  "state (fst (phase_logic t fs rate sd w)) =
     (case state t of
        AT_INIT \<Rightarrow> if Armed fs = FLIGHTSTATUS_ARMED_ARMED \<and> fless (Finite 0) (sd_Throttle sd)
                   then AT_START else AT_INIT
      | AT_START \<Rightarrow> if PREPARE_TIME < tickCount w - lastUpdateTime t then AT_ROLL else AT_START
      | AT_ROLL \<Rightarrow> if MEAURE_TIME < tickCount w - lastUpdateTime t then AT_PITCH else AT_ROLL
      | AT_PITCH \<Rightarrow> if MEAURE_TIME < tickCount w - lastUpdateTime t then AT_FINISHED else AT_PITCH
      | AT_FINISHED \<Rightarrow> if Armed fs = FLIGHTSTATUS_ARMED_DISARMED \<and> fle (sd_Throttle sd) (Finite 0)
                       then AT_SET else AT_FINISHED
      | AT_SET \<Rightarrow> AT_INIT)"
  by (simp add: phase_logic_def xTaskGetTickCount_def Let_def split: AUTOTUNE_STATE.splits)

lemma phase_logic_time:
  "lastUpdateTime (fst (phase_logic t fs rate sd w)) =
     (case state t of
        AT_INIT \<Rightarrow> tickCount w
      | AT_START \<Rightarrow> if PREPARE_TIME < tickCount w - lastUpdateTime t then tickCount w else lastUpdateTime t
      | AT_ROLL \<Rightarrow> if MEAURE_TIME < tickCount w - lastUpdateTime t then tickCount w else lastUpdateTime t
      | AT_PITCH \<Rightarrow> if MEAURE_TIME < tickCount w - lastUpdateTime t then tickCount w else lastUpdateTime t
      | AT_FINISHED \<Rightarrow> lastUpdateTime t
      | AT_SET \<Rightarrow> lastUpdateTime t)"
  by (simp add: phase_logic_def xTaskGetTickCount_def Let_def split: AUTOTUNE_STATE.splits)

lemma phase_logic_desired:
  "fst (snd (phase_logic t fs rate sd w)) =
     (case state t of
        AT_ROLL \<Rightarrow> sd\<lparr>StabilizationMode := (StabilizationMode sd)
                     [STABILIZATIONDESIRED_STABILIZATIONMODE_ROLL := relay_mode rate]\<rparr>
      | AT_PITCH \<Rightarrow> sd\<lparr>StabilizationMode := (StabilizationMode sd)
                     [STABILIZATIONDESIRED_STABILIZATIONMODE_PITCH := relay_mode rate]\<rparr>
      | _ \<Rightarrow> sd)"
  by (simp add: phase_logic_def Let_def split: AUTOTUNE_STATE.splits)

lemma phase_logic_world:
  "snd (snd (phase_logic t fs rate sd w)) =
     (if state t = AT_SET then update_stabilization_settings w else w)"
  by (simp add: phase_logic_def Let_def split: AUTOTUNE_STATE.splits)

lemma update_settings:
  "StabilizationSettings (update_stabilization_settings w) =
     (if Behavior (RelayTuningSettings w) = RELAYTUNINGSETTINGS_BEHAVIOR_MEASURE
      then StabilizationSettings w
      else compute_gains (RelayTuning w) (StabilizationSettings w))"
  by (simp add: update_trace split: RelayBehaviorOptions.splits)

lemma update_events:
  "trace (update_stabilization_settings w) = trace w @ commit_events (Behavior (RelayTuningSettings w))"
  by (simp add: update_trace commit_events_def split: RelayBehaviorOptions.splits)

lemma update_frame:
  "FlightStatus (update_stabilization_settings w) = FlightStatus w"
  "StabilizationDesired (update_stabilization_settings w) = StabilizationDesired w"
  "ManualControlCommand (update_stabilization_settings w) = ManualControlCommand w"
  "RelayTuningSettings (update_stabilization_settings w) = RelayTuningSettings w"
  "RelayTuning (update_stabilization_settings w) = RelayTuning w"
  "tickCount (update_stabilization_settings w) = tickCount w"
  by (simp_all add: update_trace split: RelayBehaviorOptions.splits)

lemma tick_state:
  "state (fst (AutotuneTick t w)) =
     (if FlightMode (FlightStatus w) \<noteq> FLIGHTSTATUS_FLIGHTMODE_AUTOTUNE then AT_INIT
      else case state t of
        AT_INIT \<Rightarrow> if Armed (FlightStatus w) = FLIGHTSTATUS_ARMED_ARMED
                        \<and> fless (Finite 0) (mc_Throttle (ManualControlCommand w))
                   then AT_START else AT_INIT
      | AT_START \<Rightarrow> if PREPARE_TIME < tickCount w - lastUpdateTime t then AT_ROLL else AT_START
      | AT_ROLL \<Rightarrow> if MEAURE_TIME < tickCount w - lastUpdateTime t then AT_PITCH else AT_ROLL
      | AT_PITCH \<Rightarrow> if MEAURE_TIME < tickCount w - lastUpdateTime t then AT_FINISHED else AT_PITCH
      | AT_FINISHED \<Rightarrow> if Armed (FlightStatus w) = FLIGHTSTATUS_ARMED_DISARMED
                           \<and> fle (mc_Throttle (ManualControlCommand w)) (Finite 0)
                       then AT_SET else AT_FINISHED
      | AT_SET \<Rightarrow> AT_INIT)"
  by (cases "FlightMode (FlightStatus w) = FLIGHTSTATUS_FLIGHTMODE_AUTOTUNE")
    (simp_all add: tick_gate tick_autotune phase_logic_state reads_done_def Let_def split: AUTOTUNE_STATE.splits)

lemma tick_time:
  "lastUpdateTime (fst (AutotuneTick t w)) =
     (if FlightMode (FlightStatus w) \<noteq> FLIGHTSTATUS_FLIGHTMODE_AUTOTUNE then lastUpdateTime t
      else case state t of
        AT_INIT \<Rightarrow> tickCount w
      | AT_START \<Rightarrow> if PREPARE_TIME < tickCount w - lastUpdateTime t then tickCount w else lastUpdateTime t
      | AT_ROLL \<Rightarrow> if MEAURE_TIME < tickCount w - lastUpdateTime t then tickCount w else lastUpdateTime t
      | AT_PITCH \<Rightarrow> if MEAURE_TIME < tickCount w - lastUpdateTime t then tickCount w else lastUpdateTime t
      | AT_FINISHED \<Rightarrow> lastUpdateTime t
      | AT_SET \<Rightarrow> lastUpdateTime t)"
  by (cases "FlightMode (FlightStatus w) = FLIGHTSTATUS_FLIGHTMODE_AUTOTUNE")
    (simp_all add: tick_gate tick_autotune phase_logic_time reads_done_def Let_def split: AUTOTUNE_STATE.splits)

lemma tick_settings:
  "StabilizationSettings (snd (AutotuneTick t w)) =
     (if FlightMode (FlightStatus w) = FLIGHTSTATUS_FLIGHTMODE_AUTOTUNE \<and> state t = AT_SET
         \<and> Behavior (RelayTuningSettings w) \<noteq> RELAYTUNINGSETTINGS_BEHAVIOR_MEASURE
      then compute_gains (RelayTuning w) (StabilizationSettings w)
      else StabilizationSettings w)"
  by (cases "FlightMode (FlightStatus w) = FLIGHTSTATUS_FLIGHTMODE_AUTOTUNE")
    (simp_all add: tick_gate tick_autotune phase_logic_world update_settings reads_done_def Let_def)

lemma tick_events_eq:
  "tick_events t w =
     (if FlightMode (FlightStatus w) \<noteq> FLIGHTSTATUS_FLIGHTMODE_AUTOTUNE
      then [WdgUpdate, Get FlightStatusObj, Delay 50]
      else autotune_reads
         @ (if state t = AT_SET then commit_events (Behavior (RelayTuningSettings w)) else [])
         @ [Set StabilizationDesiredObj, Delay 10])"
  by (cases "FlightMode (FlightStatus w) = FLIGHTSTATUS_FLIGHTMODE_AUTOTUNE")
    (simp_all add: tick_events_def tick_gate tick_autotune phase_logic_world update_events
      reads_done_def autotune_reads_def Let_def)

lemma tick_desired:
  "FlightMode (FlightStatus w) = FLIGHTSTATUS_FLIGHTMODE_AUTOTUNE \<Longrightarrow>
   StabilizationDesired (snd (AutotuneTick t w)) =
     (let rate = (Mode (RelayTuningSettings w) = RELAYTUNINGSETTINGS_MODE_RATE);
          sd = manual_desired rate (ManualControlCommand w) (StabilizationSettings w) (StabilizationDesired w)
      in case state t of
        AT_ROLL \<Rightarrow> sd\<lparr>StabilizationMode := (StabilizationMode sd)
                     [STABILIZATIONDESIRED_STABILIZATIONMODE_ROLL := relay_mode rate]\<rparr>
      | AT_PITCH \<Rightarrow> sd\<lparr>StabilizationMode := (StabilizationMode sd)
                     [STABILIZATIONDESIRED_STABILIZATIONMODE_PITCH := relay_mode rate]\<rparr>
      | _ \<Rightarrow> sd)"
  by (simp add: tick_autotune phase_logic_desired Let_def)

lemma tick_frame:
  "FlightStatus (snd (AutotuneTick t w)) = FlightStatus w"
  "ManualControlCommand (snd (AutotuneTick t w)) = ManualControlCommand w"
  "RelayTuningSettings (snd (AutotuneTick t w)) = RelayTuningSettings w"
  "RelayTuning (snd (AutotuneTick t w)) = RelayTuning w"
  "tickCount (snd (AutotuneTick t w)) = tickCount w"
  by (cases "FlightMode (FlightStatus w) = FLIGHTSTATUS_FLIGHTMODE_AUTOTUNE";
      simp add: tick_gate tick_autotune phase_logic_world update_frame reads_done_def Let_def)+

subsection \<open>The gains the loop over the axes stores\<close>

lemma compute_gains_fields:
  "RollRatePID (compute_gains rt ss) = (RollRatePID ss)
     [STABILIZATIONSETTINGS_ROLLRATEPID_KP := kp (axis_compute (Period rt ! 0) (Gain rt ! 0)),
      STABILIZATIONSETTINGS_ROLLRATEPID_KI := ki (axis_compute (Period rt ! 0) (Gain rt ! 0))]"
  "RollPI (compute_gains rt ss) = (RollPI ss)
     [STABILIZATIONSETTINGS_ROLLPI_KP := kp2 (axis_compute (Period rt ! 0) (Gain rt ! 0)),
      STABILIZATIONSETTINGS_ROLLPI_KI := ki2 (axis_compute (Period rt ! 0) (Gain rt ! 0))]"
  "PitchRatePID (compute_gains rt ss) = (PitchRatePID ss)
     [STABILIZATIONSETTINGS_ROLLRATEPID_KP := kp (axis_compute (Period rt ! 1) (Gain rt ! 1)),
      STABILIZATIONSETTINGS_ROLLRATEPID_KI := ki (axis_compute (Period rt ! 1) (Gain rt ! 1))]"
  "PitchPI (compute_gains rt ss) = (PitchPI ss)
     [STABILIZATIONSETTINGS_ROLLPI_KP := kp2 (axis_compute (Period rt ! 1) (Gain rt ! 1)),
      STABILIZATIONSETTINGS_ROLLPI_KI := ki2 (axis_compute (Period rt ! 1) (Gain rt ! 1))]"
  "ManualRate (compute_gains rt ss) = ManualRate ss"
  "RollMax (compute_gains rt ss) = RollMax ss"
  "PitchMax (compute_gains rt ss) = PitchMax ss"
  by (simp_all add: compute_gains_unfold axis_body_def Let_def)

lemma ratio_simps:
  "gain_ratio_r = Finite (1 / 3)" "zero_ratio_r = Finite (1 / 3)"
  "gain_ratio_p = Finite (1 / 5)" "zero_ratio_p = Finite (1 / 5)"
  by (simp_all add: gain_ratio_r_def zero_ratio_r_def gain_ratio_p_def zero_ratio_p_def)

lemma M_PI_pos: "0 < M_PI"
  by (simp add: M_PI_def)

lemma axis_compute_finite:
  assumes "p \<noteq> 0" and "g \<noteq> 0"
  shows "axis_compute (Finite p) (Finite g) =
     \<lparr>wu = Finite (1000 * 2 * M_PI / p),
      wc = Finite (1000 * 2 * M_PI / p * (1 / 3)),
      zc = Finite (1000 * 2 * M_PI / p * (1 / 3) * (1 / 3)),
      kpu = Finite (4 / M_PI / g),
      kp = Finite (4 / M_PI / g * (1 / 3)),
      ki = Finite (1000 * 2 * M_PI / p * (1 / 3) * (1 / 3) * (4 / M_PI / g * (1 / 3))),
      wc2 = Finite (1000 * 2 * M_PI / p * (1 / 3) * (1 / 5)),
      kp2 = Finite (1000 * 2 * M_PI / p * (1 / 3) * (1 / 5)),
      ki2 = Finite (1000 * 2 * M_PI / p * (1 / 3) * (1 / 5) * (1 / 5) * (1000 * 2 * M_PI / p * (1 / 3) * (1 / 5)))\<rparr>"
  using assms M_PI_pos by (simp add: axis_compute_def ratio_simps Let_def)

section \<open>The claims\<close>

subsection \<open>C1: a tick outside AUTOTUNE mode\<close>

lemma mode_left_not_autotune:
  "FlightMode (FlightStatus mode_left) \<noteq> FLIGHTSTATUS_FLIGHTMODE_AUTOTUNE"
  by (simp add: mode_left_def)

lemma roll_tick_modes:
  "StabilizationMode (StabilizationDesired (snd roll_tick)) =
     [STABILIZATIONDESIRED_STABILIZATIONMODE_RELAYRATE,
      STABILIZATIONDESIRED_STABILIZATIONMODE_RATE,
      STABILIZATIONDESIRED_STABILIZATIONMODE_RATE]"
  by (simp add: roll_tick_def tick_desired demo_world_def manual_desired_def relay_mode_def Let_def)

text \<open>
  C1, as the code has it. On a tick whose flight mode is not AUTOTUNE, from every phase:
  the phase becomes INIT, the phase logic is skipped (the time stamp is kept, the tick
  only refreshes the watchdog, reads FlightStatus and delays for 50 ticks), and
  StabilizationDesired is not written: the world is the one before but for the trace.
  So the record has no relay-mode axis after the tick exactly when it had none before.
\<close>

theorem C1_gate_tick:
  assumes "FlightMode (FlightStatus w) \<noteq> FLIGHTSTATUS_FLIGHTMODE_AUTOTUNE"
  shows "state (fst (AutotuneTick t w)) = AT_INIT
       \<and> lastUpdateTime (fst (AutotuneTick t w)) = lastUpdateTime t
       \<and> tick_events t w = [WdgUpdate, Get FlightStatusObj, Delay 50]
       \<and> snd (AutotuneTick t w) = w\<lparr>trace := trace w @ tick_events t w\<rparr>
       \<and> StabilizationDesired (snd (AutotuneTick t w)) = StabilizationDesired w
       \<and> no_relay_axis (StabilizationDesired (snd (AutotuneTick t w)))
           = no_relay_axis (StabilizationDesired w)"
  using assms by (simp add: tick_gate tick_events_def)

text \<open>
  C1 as stated fails: a tick of the roll measurement writes the relay mode on the roll
  axis; the pilot leaves AUTOTUNE mode; after the next tick the phase is INIT and the
  record still has the relay mode on the roll axis.
\<close>

theorem C1_gate_tick_counterexample:
  "FlightMode (FlightStatus mode_left) \<noteq> FLIGHTSTATUS_FLIGHTMODE_AUTOTUNE
   \<and> state (fst gate_tick) = AT_INIT
   \<and> \<not> no_relay_axis (StabilizationDesired (snd gate_tick))"
proof -
  have "StabilizationDesired (snd gate_tick) = StabilizationDesired (snd roll_tick)"
    by (simp add: gate_tick_def tick_gate mode_left_not_autotune) (simp add: mode_left_def)
  then have "\<not> no_relay_axis (StabilizationDesired (snd gate_tick))"
    by (simp add: no_relay_axis_def roll_tick_modes)
  moreover have "state (fst gate_tick) = AT_INIT"
    by (simp add: gate_tick_def tick_state mode_left_not_autotune)
  ultimately show ?thesis
    using mode_left_not_autotune by simp
qed

theorem C1_gate_tick_witness:
  "FlightMode (FlightStatus mode_left) \<noteq> FLIGHTSTATUS_FLIGHTMODE_AUTOTUNE
   \<and> state (fst (AutotuneTick \<lparr>state = AT_PITCH, lastUpdateTime = 7\<rparr> mode_left)) = AT_INIT
   \<and> lastUpdateTime (fst (AutotuneTick \<lparr>state = AT_PITCH, lastUpdateTime = 7\<rparr> mode_left)) = 7
   \<and> tick_events \<lparr>state = AT_PITCH, lastUpdateTime = 7\<rparr> mode_left = [WdgUpdate, Get FlightStatusObj, Delay 50]
   \<and> StabilizationDesired (snd (AutotuneTick \<lparr>state = AT_PITCH, lastUpdateTime = 7\<rparr> mode_left))
       = StabilizationDesired mode_left"
  using C1_gate_tick [OF mode_left_not_autotune, of "\<lparr>state = AT_PITCH, lastUpdateTime = 7\<rparr>"]
    mode_left_not_autotune
  by simp

subsection \<open>C2: who writes StabilizationSettings\<close>

lemma finished_tick_state: "state (fst finished_tick) = AT_SET"
  by (simp add: finished_tick_def tick_state landed_world_def demo_world_def)

lemma rearmed_fields:
  "FlightStatus rearmed_world =
     \<lparr>Armed = FLIGHTSTATUS_ARMED_ARMED, FlightMode = FLIGHTSTATUS_FLIGHTMODE_AUTOTUNE\<rparr>"
  "mc_Throttle (ManualControlCommand rearmed_world) = Finite (1 / 2)"
  "StabilizationSettings rearmed_world = demo_settings"
  "RelayTuning rearmed_world = RelayTuning demo_world"
  "Behavior (RelayTuningSettings rearmed_world) = RELAYTUNINGSETTINGS_BEHAVIOR_COMPUTE"
  by (simp_all add: rearmed_world_def rearm_def finished_tick_def tick_settings tick_frame landed_world_def demo_world_def)

lemma commit_tick_events:
  "tick_events (fst finished_tick) rearmed_world =
     autotune_reads @ [Get RelayTuningObj, Get RelayTuningSettingsObj, Get StabilizationSettingsObj,
       Set StabilizationSettingsObj, Set StabilizationDesiredObj, Delay 10]"
  by (simp add: tick_events_eq finished_tick_state rearmed_fields commit_events_def)

lemma commit_tick_RollPI:
  "RollPI (StabilizationSettings (snd commit_tick)) ! STABILIZATIONSETTINGS_ROLLPI_KP = Finite (4 * M_PI / 15)"
  by (simp add: commit_tick_def tick_settings finished_tick_state rearmed_fields compute_gains_fields
      demo_world_def demo_settings_def axis_compute_finite)

lemma tick_writes_settings:
  assumes "Set StabilizationSettingsObj \<in> set (tick_events t w)
         \<or> StabilizationSettings (snd (AutotuneTick t w)) \<noteq> StabilizationSettings w"
  shows "state t = AT_SET \<and> FlightMode (FlightStatus w) = FLIGHTSTATUS_FLIGHTMODE_AUTOTUNE"
  using assms
  by (auto simp add: tick_events_eq tick_settings autotune_reads_def split: if_splits)

lemma tick_enters_commit:
  assumes "state (fst (AutotuneTick t w)) = AT_SET"
  shows "state t = AT_FINISHED \<and> FlightMode (FlightStatus w) = FLIGHTSTATUS_FLIGHTMODE_AUTOTUNE
       \<and> Armed (FlightStatus w) = FLIGHTSTATUS_ARMED_DISARMED
       \<and> fle (mc_Throttle (ManualControlCommand w)) (Finite 0)"
  using assms
  by (auto simp add: tick_state split: if_splits AUTOTUNE_STATE.splits)

text \<open>
  C2, as the code has it. On every tick: StabilizationSettings is written (or changed)
  only when the tick starts in phase COMMIT (AT_SET) in AUTOTUNE mode; a tick ends in
  COMMIT only when it started in FINISHED, in AUTOTUNE mode, disarmed, with throttle at
  most zero. So whatever the rest of the system does to the objects between two ticks
  (\<open>env\<close>), a tick that writes the settings follows a tick on which the vehicle was
  disarmed with throttle at most zero. The tick that writes does not look at the arming
  state or the throttle again.
\<close>

theorem C2_settings_written_by_commit_only:
  "(Set StabilizationSettingsObj \<in> set (tick_events t w)
      \<or> StabilizationSettings (snd (AutotuneTick t w)) \<noteq> StabilizationSettings w
    \<longrightarrow> state t = AT_SET \<and> FlightMode (FlightStatus w) = FLIGHTSTATUS_FLIGHTMODE_AUTOTUNE)
   \<and> (state (fst (AutotuneTick t w)) = AT_SET
    \<longrightarrow> state t = AT_FINISHED \<and> FlightMode (FlightStatus w) = FLIGHTSTATUS_FLIGHTMODE_AUTOTUNE
       \<and> Armed (FlightStatus w) = FLIGHTSTATUS_ARMED_DISARMED
       \<and> fle (mc_Throttle (ManualControlCommand w)) (Finite 0))
   \<and> (Set StabilizationSettingsObj \<in> set (tick_events (fst (AutotuneTick t w)) (env (snd (AutotuneTick t w))))
      \<or> StabilizationSettings (snd (AutotuneTick (fst (AutotuneTick t w)) (env (snd (AutotuneTick t w)))))
          \<noteq> StabilizationSettings (env (snd (AutotuneTick t w)))
    \<longrightarrow> state t = AT_FINISHED \<and> FlightMode (FlightStatus w) = FLIGHTSTATUS_FLIGHTMODE_AUTOTUNE
       \<and> Armed (FlightStatus w) = FLIGHTSTATUS_ARMED_DISARMED
       \<and> fle (mc_Throttle (ManualControlCommand w)) (Finite 0))"
  using tick_writes_settings [of t w] tick_enters_commit [of t w]
    tick_writes_settings [of "fst (AutotuneTick t w)" "env (snd (AutotuneTick t w))"]
  by blast

text \<open>
  C2 as stated fails in its last part: the vehicle is disarmed with zero throttle on the
  tick in FINISHED, armed with half throttle when the next tick starts, and that tick
  writes StabilizationSettings.
\<close>

theorem C2_settings_written_by_commit_only_counterexample:
  "Armed (FlightStatus rearmed_world) = FLIGHTSTATUS_ARMED_ARMED
   \<and> fless (Finite 0) (mc_Throttle (ManualControlCommand rearmed_world))
   \<and> Set StabilizationSettingsObj \<in> set (tick_events (fst finished_tick) rearmed_world)
   \<and> StabilizationSettings (snd commit_tick) \<noteq> StabilizationSettings rearmed_world"
proof -
  have "RollPI (StabilizationSettings rearmed_world) ! STABILIZATIONSETTINGS_ROLLPI_KP = Finite 2"
    by (simp add: rearmed_fields demo_settings_def)
  moreover have "Finite (4 * M_PI / 15) \<noteq> Finite 2"
    by (simp add: M_PI_def)
  ultimately have "StabilizationSettings (snd commit_tick) \<noteq> StabilizationSettings rearmed_world"
    using commit_tick_RollPI by metis
  then show ?thesis
    by (simp add: rearmed_fields commit_tick_events)
qed

theorem C2_settings_written_by_commit_only_witness:
  "Set StabilizationSettingsObj \<in> set (tick_events (fst finished_tick) rearmed_world)
   \<and> state (fst finished_tick) = AT_SET
   \<and> FlightMode (FlightStatus rearmed_world) = FLIGHTSTATUS_FLIGHTMODE_AUTOTUNE
   \<and> state (fst (AutotuneTick \<lparr>state = AT_FINISHED, lastUpdateTime = 0\<rparr> landed_world)) = AT_SET
   \<and> Armed (FlightStatus landed_world) = FLIGHTSTATUS_ARMED_DISARMED
   \<and> fle (mc_Throttle (ManualControlCommand landed_world)) (Finite 0)"
  using C2_settings_written_by_commit_only [of "\<lparr>state = AT_FINISHED, lastUpdateTime = 0\<rparr>" landed_world rearm]
    C2_settings_written_by_commit_only [of "fst finished_tick" rearmed_world rearm]
    commit_tick_events finished_tick_state
  by (simp add: finished_tick_def rearmed_world_def)

subsection \<open>C3: the ratios of the math engine\<close>

lemma nth_two_updates:
  assumes "Suc 0 < length xs"
  shows "xs[0 := a, Suc 0 := b] ! 0 = a" and "xs[0 := a, Suc 0 := b] ! Suc 0 = b"
    and "xs[0 := a] ! 0 = a"
  using assms by (cases xs; simp)+

lemma spec_engine_code_ratios:
  "spec_math_engine p g (Finite (1 / 3)) (Finite (1 / 3)) (Finite (1 / 5)) (Finite (1 / 5)) =
     (kp (axis_compute p g), ki (axis_compute p g), kp2 (axis_compute p g), ki2 (axis_compute p g))"
  by (simp add: spec_math_engine_def axis_compute_def ratio_simps Let_def)

text \<open>
  C3, as the code has it. The constants differ by loop, not by axis. For the roll axis
  (index 0) and for the pitch axis (index 1) alike, the four gains the loop stores are
  those of the specification's math engine with both ratios of the inner (rate) loop
  equal to 1/3 (\<open>gain_ratio_r\<close>, \<open>zero_ratio_r\<close>) and both ratios of the outer
  (attitude) loop equal to 1/5 (\<open>gain_ratio_p\<close>, \<open>zero_ratio_p\<close>), for every
  measured period and gain.
\<close>

theorem C3_ratios_by_loop:
  assumes "STABILIZATIONSETTINGS_ROLLRATEPID_KI < length (RollRatePID ss)"
    and "STABILIZATIONSETTINGS_ROLLPI_KI < length (RollPI ss)"
    and "STABILIZATIONSETTINGS_ROLLRATEPID_KI < length (PitchRatePID ss)"
    and "STABILIZATIONSETTINGS_ROLLPI_KI < length (PitchPI ss)"
  shows "(RollRatePID (compute_gains rt ss) ! STABILIZATIONSETTINGS_ROLLRATEPID_KP,
          RollRatePID (compute_gains rt ss) ! STABILIZATIONSETTINGS_ROLLRATEPID_KI,
          RollPI (compute_gains rt ss) ! STABILIZATIONSETTINGS_ROLLPI_KP,
          RollPI (compute_gains rt ss) ! STABILIZATIONSETTINGS_ROLLPI_KI)
         = spec_math_engine (Period rt ! 0) (Gain rt ! 0)
             (Finite (1 / 3)) (Finite (1 / 3)) (Finite (1 / 5)) (Finite (1 / 5))
       \<and> (PitchRatePID (compute_gains rt ss) ! STABILIZATIONSETTINGS_ROLLRATEPID_KP,
          PitchRatePID (compute_gains rt ss) ! STABILIZATIONSETTINGS_ROLLRATEPID_KI,
          PitchPI (compute_gains rt ss) ! STABILIZATIONSETTINGS_ROLLPI_KP,
          PitchPI (compute_gains rt ss) ! STABILIZATIONSETTINGS_ROLLPI_KI)
         = spec_math_engine (Period rt ! 1) (Gain rt ! 1)
             (Finite (1 / 3)) (Finite (1 / 3)) (Finite (1 / 5)) (Finite (1 / 5))"
  using assms by (simp add: compute_gains_fields spec_engine_code_ratios nth_two_updates)

lemma demo_axis:
  "axis_compute (Finite 500) (Finite (3 / 10)) =
     \<lparr>wu = Finite (4 * M_PI),
      wc = Finite (4 * M_PI / 3),
      zc = Finite (4 * M_PI / 9),
      kpu = Finite (40 / (3 * M_PI)),
      kp = Finite (40 / (9 * M_PI)),
      ki = Finite (160 / 81),
      wc2 = Finite (4 * M_PI / 15),
      kp2 = Finite (4 * M_PI / 15),
      ki2 = Finite (16 * M_PI * M_PI / 1125)\<rparr>"
  using M_PI_pos by (simp add: axis_compute_finite)

lemma demo_measurement:
  "Period (RelayTuning demo_world) ! 0 = Finite 500" "Gain (RelayTuning demo_world) ! 0 = Finite (3 / 10)"
  "Period (RelayTuning demo_world) ! 1 = Finite 500" "Gain (RelayTuning demo_world) ! 1 = Finite (3 / 10)"
  "Period (RelayTuning demo_world) ! Suc 0 = Finite 500" "Gain (RelayTuning demo_world) ! Suc 0 = Finite (3 / 10)"
  by (simp_all add: demo_world_def)

text \<open>
  C3 as stated fails: at a period of 500 ms and a gain of 0.3 the proportional gain
  stored for the pitch rate loop is not the one the math engine gives with an inner
  ratio of 1/5.
\<close>

theorem C3_ratios_by_loop_counterexample:
  "PitchRatePID (compute_gains (RelayTuning demo_world) demo_settings) ! STABILIZATIONSETTINGS_ROLLRATEPID_KP
     \<noteq> fst (spec_math_engine (Period (RelayTuning demo_world) ! 1) (Gain (RelayTuning demo_world) ! 1)
          (Finite (1 / 5)) (Finite (1 / 5)) (Finite (1 / 5)) (Finite (1 / 5)))"
  by (simp add: compute_gains_fields demo_measurement demo_axis demo_settings_def
      spec_math_engine_def Let_def M_PI_def)

theorem C3_ratios_by_loop_witness:
  "STABILIZATIONSETTINGS_ROLLRATEPID_KI < length (RollRatePID demo_settings)
   \<and> STABILIZATIONSETTINGS_ROLLPI_KI < length (RollPI demo_settings)
   \<and> STABILIZATIONSETTINGS_ROLLRATEPID_KI < length (PitchRatePID demo_settings)
   \<and> STABILIZATIONSETTINGS_ROLLPI_KI < length (PitchPI demo_settings)
   \<and> PitchRatePID (compute_gains (RelayTuning demo_world) demo_settings) ! STABILIZATIONSETTINGS_ROLLRATEPID_KP
       = fst (spec_math_engine (Finite 500) (Finite (3 / 10))
            (Finite (1 / 3)) (Finite (1 / 3)) (Finite (1 / 5)) (Finite (1 / 5)))
   \<and> RollPI (compute_gains (RelayTuning demo_world) demo_settings) ! STABILIZATIONSETTINGS_ROLLPI_KP
       = fst (snd (snd (spec_math_engine (Finite 500) (Finite (3 / 10))
            (Finite (1 / 3)) (Finite (1 / 3)) (Finite (1 / 5)) (Finite (1 / 5)))))"
proof -
  have len: "STABILIZATIONSETTINGS_ROLLRATEPID_KI < length (RollRatePID demo_settings)"
    "STABILIZATIONSETTINGS_ROLLPI_KI < length (RollPI demo_settings)"
    "STABILIZATIONSETTINGS_ROLLRATEPID_KI < length (PitchRatePID demo_settings)"
    "STABILIZATIONSETTINGS_ROLLPI_KI < length (PitchPI demo_settings)"
    by (simp_all add: demo_settings_def)
  from C3_ratios_by_loop [OF len, of "RelayTuning demo_world"] len show ?thesis
    by (simp add: demo_measurement prod_eq_iff)
qed

subsection \<open>C4: the worked example\<close>

text \<open>
  C4, as the code has it. For the roll axis with a period of 500 ms and a gain of 0.3:
  wu is about 12.566, wc about 4.189, kpu about 4.244, zc about 1.396, and wc2 = wc/5
  is about 0.838; the gains stored are kp_rate about 1.415, ki_rate about 1.975,
  kp_att about 0.838 and ki_att about 0.140, each within 0.0005.
\<close>

theorem C4_roll_example:
  "approx (1 / 2000) (wu (axis_compute (Finite 500) (Finite (3 / 10)))) 12.566
   \<and> approx (1 / 2000) (wc (axis_compute (Finite 500) (Finite (3 / 10)))) 4.189
   \<and> approx (1 / 2000) (kpu (axis_compute (Finite 500) (Finite (3 / 10)))) 4.244
   \<and> approx (1 / 2000) (zc (axis_compute (Finite 500) (Finite (3 / 10)))) 1.396
   \<and> approx (1 / 2000) (wc2 (axis_compute (Finite 500) (Finite (3 / 10)))) 0.838
   \<and> approx (1 / 2000) (RollRatePID (StabilizationSettings (update_stabilization_settings demo_world))
        ! STABILIZATIONSETTINGS_ROLLRATEPID_KP) 1.415
   \<and> approx (1 / 2000) (RollRatePID (StabilizationSettings (update_stabilization_settings demo_world))
        ! STABILIZATIONSETTINGS_ROLLRATEPID_KI) 1.975
   \<and> approx (1 / 2000) (RollPI (StabilizationSettings (update_stabilization_settings demo_world))
        ! STABILIZATIONSETTINGS_ROLLPI_KP) 0.838
   \<and> approx (1 / 2000) (RollPI (StabilizationSettings (update_stabilization_settings demo_world))
        ! STABILIZATIONSETTINGS_ROLLPI_KI) 0.140"
  by (simp add: update_settings compute_gains_fields demo_axis demo_world_def demo_settings_def)
    (simp add: M_PI_def abs_le_iff)

text \<open>
  C4 as stated fails: the stored ki_rate is not within 0.01 of 1.948, and the stored
  kp_att and ki_att are not within 0.5 of 1.396 and of 0.650.
\<close>

theorem C4_roll_example_counterexample:
  "\<not> approx (1 / 100) (RollRatePID (StabilizationSettings (update_stabilization_settings demo_world))
        ! STABILIZATIONSETTINGS_ROLLRATEPID_KI) 1.948
   \<and> \<not> approx (1 / 2) (RollPI (StabilizationSettings (update_stabilization_settings demo_world))
        ! STABILIZATIONSETTINGS_ROLLPI_KP) 1.396
   \<and> \<not> approx (1 / 2) (RollPI (StabilizationSettings (update_stabilization_settings demo_world))
        ! STABILIZATIONSETTINGS_ROLLPI_KI) 0.650"
  by (simp add: update_settings compute_gains_fields demo_axis demo_world_def demo_settings_def)
    (simp add: M_PI_def abs_le_iff)

subsection \<open>C5: what COMMIT does with the gains\<close>


lemma compute_gains_record:
  "compute_gains rt ss = ss\<lparr>
     RollRatePID := (RollRatePID ss)
       [STABILIZATIONSETTINGS_ROLLRATEPID_KP := kp (axis_compute (Period rt ! 0) (Gain rt ! 0)),
        STABILIZATIONSETTINGS_ROLLRATEPID_KI := ki (axis_compute (Period rt ! 0) (Gain rt ! 0))],
     RollPI := (RollPI ss)
       [STABILIZATIONSETTINGS_ROLLPI_KP := kp2 (axis_compute (Period rt ! 0) (Gain rt ! 0)),
        STABILIZATIONSETTINGS_ROLLPI_KI := ki2 (axis_compute (Period rt ! 0) (Gain rt ! 0))],
     PitchRatePID := (PitchRatePID ss)
       [STABILIZATIONSETTINGS_ROLLRATEPID_KP := kp (axis_compute (Period rt ! 1) (Gain rt ! 1)),
        STABILIZATIONSETTINGS_ROLLRATEPID_KI := ki (axis_compute (Period rt ! 1) (Gain rt ! 1))],
     PitchPI := (PitchPI ss)
       [STABILIZATIONSETTINGS_ROLLPI_KP := kp2 (axis_compute (Period rt ! 1) (Gain rt ! 1)),
        STABILIZATIONSETTINGS_ROLLPI_KI := ki2 (axis_compute (Period rt ! 1) (Gain rt ! 1))]\<rparr>"
  by (simp add: compute_gains_unfold axis_body_def Let_def)



lemma demo_stored:
  "compute_gains (RelayTuning demo_world) demo_settings = demo_settings\<lparr>
     RollRatePID := [Finite (40 / (9 * M_PI)), Finite (160 / 81), Finite 0],
     RollPI := [Finite (4 * M_PI / 15), Finite (16 * M_PI * M_PI / 1125), Finite 50],
     PitchRatePID := [Finite (40 / (9 * M_PI)), Finite (160 / 81), Finite 0],
     PitchPI := [Finite (4 * M_PI / 15), Finite (16 * M_PI * M_PI / 1125), Finite 50]\<rparr>"
  by (simp add: compute_gains_record demo_measurement demo_axis) (simp add: demo_settings_def)




subsection \<open>C6: the transitions of the phase\<close>

lemma forward_enabled:
  "state (fst (AutotuneTick t
     ((if state t = AT_FINISHED then landed_world else demo_world)\<lparr>tickCount := lastUpdateTime t + 30001\<rparr>)))
   = spec_successor (state t)"
  by (cases "state t")
    (simp_all add: tick_state landed_world_def demo_world_def PREPARE_TIME_def MEAURE_TIME_def)

text \<open>
  C6. The phase is one value of the enumeration. On every tick the phase stays, or
  moves to its successor in INIT, START, ROLL, PITCH, FINISHED, COMMIT, INIT, or is reset
  to INIT because the flight mode is not AUTOTUNE; that reset happens from every phase;
  from COMMIT the next phase is INIT whatever the inputs; and no phase is terminal: from
  every phase some tick in AUTOTUNE mode moves to the successor, which is another phase.
\<close>

theorem C6_transitions:
  "(state (fst (AutotuneTick t w)) = state t
      \<or> state (fst (AutotuneTick t w)) = spec_successor (state t)
      \<or> state (fst (AutotuneTick t w)) = AT_INIT
         \<and> FlightMode (FlightStatus w) \<noteq> FLIGHTSTATUS_FLIGHTMODE_AUTOTUNE)
   \<and> (FlightMode (FlightStatus w) \<noteq> FLIGHTSTATUS_FLIGHTMODE_AUTOTUNE
        \<longrightarrow> state (fst (AutotuneTick t w)) = AT_INIT)
   \<and> (state t = AT_SET \<longrightarrow> state (fst (AutotuneTick t w)) = AT_INIT)
   \<and> (\<exists>w'. FlightMode (FlightStatus w') = FLIGHTSTATUS_FLIGHTMODE_AUTOTUNE
           \<and> state (fst (AutotuneTick t w')) = spec_successor (state t)
           \<and> spec_successor (state t) \<noteq> state t)"
proof -
  have step: "state (fst (AutotuneTick t w)) = state t
      \<or> state (fst (AutotuneTick t w)) = spec_successor (state t)
      \<or> state (fst (AutotuneTick t w)) = AT_INIT
         \<and> FlightMode (FlightStatus w) \<noteq> FLIGHTSTATUS_FLIGHTMODE_AUTOTUNE"
    by (cases "state t") (simp_all add: tick_state)
  have reset: "FlightMode (FlightStatus w) \<noteq> FLIGHTSTATUS_FLIGHTMODE_AUTOTUNE
        \<longrightarrow> state (fst (AutotuneTick t w)) = AT_INIT"
    by (simp add: tick_state)
  have commit: "state t = AT_SET \<longrightarrow> state (fst (AutotuneTick t w)) = AT_INIT"
    by (simp add: tick_state)
  have mode: "FlightMode (FlightStatus
      ((if state t = AT_FINISHED then landed_world else demo_world)\<lparr>tickCount := lastUpdateTime t + 30001\<rparr>))
      = FLIGHTSTATUS_FLIGHTMODE_AUTOTUNE"
    by (simp add: landed_world_def demo_world_def)
  have "spec_successor (state t) \<noteq> state t"
    by (cases "state t") simp_all
  with forward_enabled [of t] mode
  have live: "\<exists>w'. FlightMode (FlightStatus w') = FLIGHTSTATUS_FLIGHTMODE_AUTOTUNE
           \<and> state (fst (AutotuneTick t w')) = spec_successor (state t)
           \<and> spec_successor (state t) \<noteq> state t"
    by blast
  from step reset commit live show ?thesis by blast
qed

theorem C6_transitions_witness:
  "FlightMode (FlightStatus mode_left) \<noteq> FLIGHTSTATUS_FLIGHTMODE_AUTOTUNE
   \<and> state (fst (AutotuneTick \<lparr>state = AT_PITCH, lastUpdateTime = 0\<rparr> mode_left)) = AT_INIT
   \<and> state (fst (AutotuneTick \<lparr>state = AT_SET, lastUpdateTime = 0\<rparr> demo_world)) = AT_INIT"
  using C6_transitions [of "\<lparr>state = AT_PITCH, lastUpdateTime = 0\<rparr>" mode_left]
    C6_transitions [of "\<lparr>state = AT_SET, lastUpdateTime = 0\<rparr>" demo_world]
    mode_left_not_autotune
  by simp

subsection \<open>C7: the time thresholds\<close>

text \<open>
  C7, as the code has it. In AUTOTUNE mode, with the elapsed time the 32-bit difference
  of the tick count and the time stamp taken when the phase was entered (phase INIT
  stamps every tick): the task leaves START for ROLL exactly when the elapsed time is
  greater than 2000, and leaves ROLL for PITCH and PITCH for FINISHED exactly when it is
  greater than 30000, stamping the new phase; otherwise phase and stamp stay. So it
  never leaves at or before the threshold.
\<close>

theorem C7_thresholds:
  assumes "FlightMode (FlightStatus w) = FLIGHTSTATUS_FLIGHTMODE_AUTOTUNE"
  shows "(state t = AT_INIT \<longrightarrow> lastUpdateTime (fst (AutotuneTick t w)) = tickCount w)
       \<and> (state t = AT_START \<longrightarrow>
            fst (AutotuneTick t w) =
              (if 2000 < tickCount w - lastUpdateTime t
               then \<lparr>state = AT_ROLL, lastUpdateTime = tickCount w\<rparr> else t))
       \<and> (state t = AT_ROLL \<longrightarrow>
            fst (AutotuneTick t w) =
              (if 30000 < tickCount w - lastUpdateTime t
               then \<lparr>state = AT_PITCH, lastUpdateTime = tickCount w\<rparr> else t))
       \<and> (state t = AT_PITCH \<longrightarrow>
            fst (AutotuneTick t w) =
              (if 30000 < tickCount w - lastUpdateTime t
               then \<lparr>state = AT_FINISHED, lastUpdateTime = tickCount w\<rparr> else t))"
  using assms
  by (auto simp add: tick_state tick_time PREPARE_TIME_def MEAURE_TIME_def intro!: task.equality)

text \<open>
  C7 as stated fails: with exactly 2000 ticks elapsed in START (elapsed \<open>\<ge>\<close> PREPARE_TIME)
  the task stays in START.
\<close>

theorem C7_thresholds_counterexample:
  "FlightMode (FlightStatus (demo_at 2000)) = FLIGHTSTATUS_FLIGHTMODE_AUTOTUNE
   \<and> 2000 \<le> tickCount (demo_at 2000) - lastUpdateTime \<lparr>state = AT_START, lastUpdateTime = 0\<rparr>
   \<and> state (fst (AutotuneTick \<lparr>state = AT_START, lastUpdateTime = 0\<rparr> (demo_at 2000))) = AT_START"
  by (simp add: tick_state demo_at_def demo_world_def PREPARE_TIME_def)

theorem C7_thresholds_witness:
  "FlightMode (FlightStatus (demo_at 2001)) = FLIGHTSTATUS_FLIGHTMODE_AUTOTUNE
   \<and> fst (AutotuneTick \<lparr>state = AT_START, lastUpdateTime = 0\<rparr> (demo_at 2001))
       = \<lparr>state = AT_ROLL, lastUpdateTime = 2001\<rparr>
   \<and> fst (AutotuneTick \<lparr>state = AT_PITCH, lastUpdateTime = 5\<rparr> (demo_at 30005))
       = \<lparr>state = AT_PITCH, lastUpdateTime = 5\<rparr>"
proof -
  have m: "FlightMode (FlightStatus (demo_at n)) = FLIGHTSTATUS_FLIGHTMODE_AUTOTUNE" for n
    by (simp add: demo_at_def demo_world_def)
  have c: "tickCount (demo_at n) = n" for n
    by (simp add: demo_at_def)
  show ?thesis
    using C7_thresholds [OF m, of "\<lparr>state = AT_START, lastUpdateTime = 0\<rparr>" 2001]
      C7_thresholds [OF m, of "\<lparr>state = AT_PITCH, lastUpdateTime = 5\<rparr>" 30005]
    by (simp add: m c)
qed

subsection \<open>C8: the yaw axis\<close>

lemma manual_desired_yaw:
  assumes "STABILIZATIONDESIRED_STABILIZATIONMODE_YAW < length (StabilizationMode sd)"
  shows "StabilizationMode (manual_desired rate mc ss sd) ! STABILIZATIONDESIRED_STABILIZATIONMODE_YAW
           = STABILIZATIONDESIRED_STABILIZATIONMODE_RATE"
    and "length (StabilizationMode (manual_desired rate mc ss sd)) = length (StabilizationMode sd)"
    and "sd_Yaw (manual_desired rate mc ss sd)
           = fmul (mc_Yaw mc) (ManualRate ss ! STABILIZATIONSETTINGS_MANUALRATE_YAW)"
  using assms by (simp_all add: manual_desired_def Let_def)

lemma tick_yaw:
  assumes "FlightMode (FlightStatus w) = FLIGHTSTATUS_FLIGHTMODE_AUTOTUNE"
    and "STABILIZATIONDESIRED_STABILIZATIONMODE_YAW < length (StabilizationMode (StabilizationDesired w))"
  shows "StabilizationMode (StabilizationDesired (snd (AutotuneTick t w)))
           ! STABILIZATIONDESIRED_STABILIZATIONMODE_YAW = STABILIZATIONDESIRED_STABILIZATIONMODE_RATE"
    and "sd_Yaw (StabilizationDesired (snd (AutotuneTick t w)))
           = fmul (mc_Yaw (ManualControlCommand w))
               (ManualRate (StabilizationSettings w) ! STABILIZATIONSETTINGS_MANUALRATE_YAW)"
  using assms
  by (cases "state t"; simp add: tick_desired manual_desired_yaw Let_def)+

lemma tick_ManualRate:
  "ManualRate (StabilizationSettings (snd (AutotuneTick t w))) = ManualRate (StabilizationSettings w)"
  by (simp add: tick_settings compute_gains_fields)

text \<open>
  C8. Every StabilizationDesired record the task writes (one per tick in AUTOTUNE mode),
  in every phase, has the yaw axis in RATE mode and as yaw value the manual yaw command
  scaled by the manual rate of the yaw axis, as in normal rate control. Two ticks that
  read the same manual yaw and the same yaw rate write the same yaw mode and value,
  whatever their phases and time stamps; and no tick changes the manual rates.
\<close>

theorem C8_yaw_never_overridden:
  assumes "FlightMode (FlightStatus w) = FLIGHTSTATUS_FLIGHTMODE_AUTOTUNE"
    and "FlightMode (FlightStatus w') = FLIGHTSTATUS_FLIGHTMODE_AUTOTUNE"
    and "STABILIZATIONDESIRED_STABILIZATIONMODE_YAW < length (StabilizationMode (StabilizationDesired w))"
    and "STABILIZATIONDESIRED_STABILIZATIONMODE_YAW < length (StabilizationMode (StabilizationDesired w'))"
    and "mc_Yaw (ManualControlCommand w') = mc_Yaw (ManualControlCommand w)"
    and "ManualRate (StabilizationSettings w') ! STABILIZATIONSETTINGS_MANUALRATE_YAW
           = ManualRate (StabilizationSettings w) ! STABILIZATIONSETTINGS_MANUALRATE_YAW"
  shows "StabilizationMode (StabilizationDesired (snd (AutotuneTick t w)))
           ! STABILIZATIONDESIRED_STABILIZATIONMODE_YAW = STABILIZATIONDESIRED_STABILIZATIONMODE_RATE
       \<and> sd_Yaw (StabilizationDesired (snd (AutotuneTick t w)))
           = fmul (mc_Yaw (ManualControlCommand w))
               (ManualRate (StabilizationSettings w) ! STABILIZATIONSETTINGS_MANUALRATE_YAW)
       \<and> StabilizationMode (StabilizationDesired (snd (AutotuneTick t' w')))
           ! STABILIZATIONDESIRED_STABILIZATIONMODE_YAW
           = StabilizationMode (StabilizationDesired (snd (AutotuneTick t w)))
               ! STABILIZATIONDESIRED_STABILIZATIONMODE_YAW
       \<and> sd_Yaw (StabilizationDesired (snd (AutotuneTick t' w')))
           = sd_Yaw (StabilizationDesired (snd (AutotuneTick t w)))
       \<and> ManualRate (StabilizationSettings (snd (AutotuneTick t w)))
           = ManualRate (StabilizationSettings w)"
  using assms by (simp add: tick_yaw tick_ManualRate)

theorem C8_yaw_never_overridden_witness:
  "FlightMode (FlightStatus demo_world) = FLIGHTSTATUS_FLIGHTMODE_AUTOTUNE
   \<and> FlightMode (FlightStatus (demo_at 9)) = FLIGHTSTATUS_FLIGHTMODE_AUTOTUNE
   \<and> STABILIZATIONDESIRED_STABILIZATIONMODE_YAW < length (StabilizationMode (StabilizationDesired demo_world))
   \<and> StabilizationMode (StabilizationDesired (snd (AutotuneTick \<lparr>state = AT_ROLL, lastUpdateTime = 0\<rparr> demo_world)))
        ! STABILIZATIONDESIRED_STABILIZATIONMODE_YAW = STABILIZATIONDESIRED_STABILIZATIONMODE_RATE
   \<and> sd_Yaw (StabilizationDesired (snd (AutotuneTick \<lparr>state = AT_ROLL, lastUpdateTime = 0\<rparr> demo_world)))
        = Finite 75
   \<and> sd_Yaw (StabilizationDesired (snd (AutotuneTick \<lparr>state = AT_SET, lastUpdateTime = 3\<rparr> (demo_at 9))))
        = sd_Yaw (StabilizationDesired (snd (AutotuneTick \<lparr>state = AT_ROLL, lastUpdateTime = 0\<rparr> demo_world)))"
proof -
  have h: "FlightMode (FlightStatus demo_world) = FLIGHTSTATUS_FLIGHTMODE_AUTOTUNE"
    "FlightMode (FlightStatus (demo_at 9)) = FLIGHTSTATUS_FLIGHTMODE_AUTOTUNE"
    "STABILIZATIONDESIRED_STABILIZATIONMODE_YAW < length (StabilizationMode (StabilizationDesired demo_world))"
    "STABILIZATIONDESIRED_STABILIZATIONMODE_YAW < length (StabilizationMode (StabilizationDesired (demo_at 9)))"
    "mc_Yaw (ManualControlCommand (demo_at 9)) = mc_Yaw (ManualControlCommand demo_world)"
    "ManualRate (StabilizationSettings (demo_at 9)) ! STABILIZATIONSETTINGS_MANUALRATE_YAW
       = ManualRate (StabilizationSettings demo_world) ! STABILIZATIONSETTINGS_MANUALRATE_YAW"
    by (simp_all add: demo_at_def demo_world_def)
  have v: "fmul (mc_Yaw (ManualControlCommand demo_world))
      (ManualRate (StabilizationSettings demo_world) ! STABILIZATIONSETTINGS_MANUALRATE_YAW) = Finite 75"
    by (simp add: demo_world_def demo_settings_def)
  from C8_yaw_never_overridden [OF h, of "\<lparr>state = AT_ROLL, lastUpdateTime = 0\<rparr>"
      "\<lparr>state = AT_SET, lastUpdateTime = 3\<rparr>"] h v
  show ?thesis by simp
qed

subsection \<open>C9: the write of StabilizationDesired\<close>

text \<open>
  C9, as the code has it. On a tick in AUTOTUNE mode the task writes StabilizationDesired
  exactly once, after every read of the tick (the reads of flight status, desired
  record, settings, manual input and relay settings, and in COMMIT the reads and writes
  of the update of the settings); only the delay follows the write. On a tick in another
  flight mode it reads FlightStatus and writes nothing.
\<close>

theorem C9_desired_written_once:
  "(FlightMode (FlightStatus w) = FLIGHTSTATUS_FLIGHTMODE_AUTOTUNE \<longrightarrow>
      (\<exists>mid. tick_events t w = autotune_reads @ mid @ [Set StabilizationDesiredObj, Delay 10]
           \<and> Set StabilizationDesiredObj \<notin> set (autotune_reads @ mid))
      \<and> count_list (tick_events t w) (Set StabilizationDesiredObj) = 1)
   \<and> (FlightMode (FlightStatus w) \<noteq> FLIGHTSTATUS_FLIGHTMODE_AUTOTUNE \<longrightarrow>
      tick_events t w = [WdgUpdate, Get FlightStatusObj, Delay 50]
      \<and> count_list (tick_events t w) (Set StabilizationDesiredObj) = 0)"
proof -
  have "Set StabilizationDesiredObj \<notin> set (autotune_reads
      @ (if state t = AT_SET then commit_events (Behavior (RelayTuningSettings w)) else []))"
    by (simp add: autotune_reads_def commit_events_def split: RelayBehaviorOptions.splits)
  moreover have "count_list (autotune_reads
      @ (if state t = AT_SET then commit_events (Behavior (RelayTuningSettings w)) else [])
      @ [Set StabilizationDesiredObj, Delay 10]) (Set StabilizationDesiredObj) = 1"
    by (simp add: autotune_reads_def commit_events_def split: RelayBehaviorOptions.splits)
  ultimately show ?thesis
    by (auto simp add: tick_events_eq)
qed

text \<open>
  C9 as stated fails: on the tick after the pilot has left AUTOTUNE mode the record is
  not written.
\<close>

theorem C9_desired_written_once_counterexample:
  "count_list (tick_events (fst roll_tick) mode_left) (Set StabilizationDesiredObj) = 0"
  by (simp add: tick_events_eq mode_left_not_autotune)

theorem C9_desired_written_once_witness:
  "FlightMode (FlightStatus demo_world) = FLIGHTSTATUS_FLIGHTMODE_AUTOTUNE
   \<and> count_list (tick_events \<lparr>state = AT_SET, lastUpdateTime = 0\<rparr> demo_world) (Set StabilizationDesiredObj) = 1
   \<and> FlightMode (FlightStatus mode_left) \<noteq> FLIGHTSTATUS_FLIGHTMODE_AUTOTUNE
   \<and> tick_events \<lparr>state = AT_SET, lastUpdateTime = 0\<rparr> mode_left = [WdgUpdate, Get FlightStatusObj, Delay 50]"
proof -
  have h: "FlightMode (FlightStatus demo_world) = FLIGHTSTATUS_FLIGHTMODE_AUTOTUNE"
    by (simp add: demo_world_def)
  from C9_desired_written_once [of demo_world "\<lparr>state = AT_SET, lastUpdateTime = 0\<rparr>"]
    C9_desired_written_once [of mode_left "\<lparr>state = AT_SET, lastUpdateTime = 0\<rparr>"]
    h mode_left_not_autotune
  show ?thesis by simp
qed

subsection \<open>C10: the divisions by the measured period and gain\<close>

lemma axis_compute_zero_period:
  "\<not> is_finite (ki (axis_compute (Finite 0) (Finite g)))"
  "\<not> is_finite (kp2 (axis_compute (Finite 0) (Finite g)))"
  "\<not> is_finite (ki2 (axis_compute (Finite 0) (Finite g)))"
  using M_PI_pos
  by (cases "g = 0"; cases "0 < g";
      simp add: axis_compute_def ratio_simps inf_of_sign_def Let_def sgn_if)+

lemma axis_compute_zero_gain:
  "\<not> is_finite (kp (axis_compute (Finite p) (Finite 0)))"
  "\<not> is_finite (ki (axis_compute (Finite p) (Finite 0)))"
  using M_PI_pos
  by (cases "p = 0"; cases "0 < p";
      simp add: axis_compute_def ratio_simps inf_of_sign_def Let_def sgn_if)+

text \<open>
  C10. COMMIT computes and stores the gains without a check of the measurements: on a
  tick in COMMIT whose behaviour is not MEASURE, with measurements \<open>p\<close> and \<open>g\<close> of
  an axis, a period \<open>p\<close> of zero stores values that are not finite as the Ki of the
  rate loop and as the Kp and Ki of the attitude loop of that axis, and a gain \<open>g\<close> of
  zero stores values that are not finite as the Kp and Ki of its rate loop. So the four
  gains stored for an axis are all finite only if its period and gain are both
  different from zero. (The converse is not stated: a product or quotient of binary32
  can overflow, which the model of the floats leaves out.)
\<close>

theorem C10_unguarded_division:
  assumes "state t = AT_SET"
    and "FlightMode (FlightStatus w) = FLIGHTSTATUS_FLIGHTMODE_AUTOTUNE"
    and "Behavior (RelayTuningSettings w) \<noteq> RELAYTUNINGSETTINGS_BEHAVIOR_MEASURE"
    and "STABILIZATIONSETTINGS_ROLLRATEPID_KI < length (RollRatePID (StabilizationSettings w))"
    and "STABILIZATIONSETTINGS_ROLLPI_KI < length (RollPI (StabilizationSettings w))"
    and "STABILIZATIONSETTINGS_ROLLRATEPID_KI < length (PitchRatePID (StabilizationSettings w))"
    and "STABILIZATIONSETTINGS_ROLLPI_KI < length (PitchPI (StabilizationSettings w))"
    and "Period (RelayTuning w) ! 0 = Finite p0" and "Gain (RelayTuning w) ! 0 = Finite g0"
    and "Period (RelayTuning w) ! 1 = Finite p1" and "Gain (RelayTuning w) ! 1 = Finite g1"
  shows "(p0 = 0 \<longrightarrow>
            \<not> is_finite (RollRatePID (StabilizationSettings (snd (AutotuneTick t w))) ! STABILIZATIONSETTINGS_ROLLRATEPID_KI)
          \<and> \<not> is_finite (RollPI (StabilizationSettings (snd (AutotuneTick t w))) ! STABILIZATIONSETTINGS_ROLLPI_KP)
          \<and> \<not> is_finite (RollPI (StabilizationSettings (snd (AutotuneTick t w))) ! STABILIZATIONSETTINGS_ROLLPI_KI))
       \<and> (g0 = 0 \<longrightarrow>
            \<not> is_finite (RollRatePID (StabilizationSettings (snd (AutotuneTick t w))) ! STABILIZATIONSETTINGS_ROLLRATEPID_KP)
          \<and> \<not> is_finite (RollRatePID (StabilizationSettings (snd (AutotuneTick t w))) ! STABILIZATIONSETTINGS_ROLLRATEPID_KI))
       \<and> (p1 = 0 \<longrightarrow>
            \<not> is_finite (PitchRatePID (StabilizationSettings (snd (AutotuneTick t w))) ! STABILIZATIONSETTINGS_ROLLRATEPID_KI)
          \<and> \<not> is_finite (PitchPI (StabilizationSettings (snd (AutotuneTick t w))) ! STABILIZATIONSETTINGS_ROLLPI_KP)
          \<and> \<not> is_finite (PitchPI (StabilizationSettings (snd (AutotuneTick t w))) ! STABILIZATIONSETTINGS_ROLLPI_KI))
       \<and> (g1 = 0 \<longrightarrow>
            \<not> is_finite (PitchRatePID (StabilizationSettings (snd (AutotuneTick t w))) ! STABILIZATIONSETTINGS_ROLLRATEPID_KP)
          \<and> \<not> is_finite (PitchRatePID (StabilizationSettings (snd (AutotuneTick t w))) ! STABILIZATIONSETTINGS_ROLLRATEPID_KI))
       \<and> (is_finite (RollRatePID (StabilizationSettings (snd (AutotuneTick t w))) ! STABILIZATIONSETTINGS_ROLLRATEPID_KP)
          \<and> is_finite (RollRatePID (StabilizationSettings (snd (AutotuneTick t w))) ! STABILIZATIONSETTINGS_ROLLRATEPID_KI)
          \<and> is_finite (RollPI (StabilizationSettings (snd (AutotuneTick t w))) ! STABILIZATIONSETTINGS_ROLLPI_KP)
          \<and> is_finite (RollPI (StabilizationSettings (snd (AutotuneTick t w))) ! STABILIZATIONSETTINGS_ROLLPI_KI)
          \<longrightarrow> p0 \<noteq> 0 \<and> g0 \<noteq> 0)
       \<and> (is_finite (PitchRatePID (StabilizationSettings (snd (AutotuneTick t w))) ! STABILIZATIONSETTINGS_ROLLRATEPID_KP)
          \<and> is_finite (PitchRatePID (StabilizationSettings (snd (AutotuneTick t w))) ! STABILIZATIONSETTINGS_ROLLRATEPID_KI)
          \<and> is_finite (PitchPI (StabilizationSettings (snd (AutotuneTick t w))) ! STABILIZATIONSETTINGS_ROLLPI_KP)
          \<and> is_finite (PitchPI (StabilizationSettings (snd (AutotuneTick t w))) ! STABILIZATIONSETTINGS_ROLLPI_KI)
          \<longrightarrow> p1 \<noteq> 0 \<and> g1 \<noteq> 0)"
proof -
  have stored:
    "RollRatePID (StabilizationSettings (snd (AutotuneTick t w))) ! STABILIZATIONSETTINGS_ROLLRATEPID_KP
       = kp (axis_compute (Finite p0) (Finite g0))"
    "RollRatePID (StabilizationSettings (snd (AutotuneTick t w))) ! STABILIZATIONSETTINGS_ROLLRATEPID_KI
       = ki (axis_compute (Finite p0) (Finite g0))"
    "RollPI (StabilizationSettings (snd (AutotuneTick t w))) ! STABILIZATIONSETTINGS_ROLLPI_KP
       = kp2 (axis_compute (Finite p0) (Finite g0))"
    "RollPI (StabilizationSettings (snd (AutotuneTick t w))) ! STABILIZATIONSETTINGS_ROLLPI_KI
       = ki2 (axis_compute (Finite p0) (Finite g0))"
    "PitchRatePID (StabilizationSettings (snd (AutotuneTick t w))) ! STABILIZATIONSETTINGS_ROLLRATEPID_KP
       = kp (axis_compute (Finite p1) (Finite g1))"
    "PitchRatePID (StabilizationSettings (snd (AutotuneTick t w))) ! STABILIZATIONSETTINGS_ROLLRATEPID_KI
       = ki (axis_compute (Finite p1) (Finite g1))"
    "PitchPI (StabilizationSettings (snd (AutotuneTick t w))) ! STABILIZATIONSETTINGS_ROLLPI_KP
       = kp2 (axis_compute (Finite p1) (Finite g1))"
    "PitchPI (StabilizationSettings (snd (AutotuneTick t w))) ! STABILIZATIONSETTINGS_ROLLPI_KI
       = ki2 (axis_compute (Finite p1) (Finite g1))"
    using assms by (simp_all add: tick_settings compute_gains_fields nth_two_updates)
  show ?thesis
    unfolding stored
    using axis_compute_zero_period [of g0] axis_compute_zero_gain [of p0]
      axis_compute_zero_period [of g1] axis_compute_zero_gain [of p1]
    by blast
qed

theorem C10_unguarded_division_witness:
  "Behavior (RelayTuningSettings zero_measured_world) \<noteq> RELAYTUNINGSETTINGS_BEHAVIOR_MEASURE
   \<and> Period (RelayTuning zero_measured_world) ! 0 = Finite 0
   \<and> Gain (RelayTuning zero_measured_world) ! 1 = Finite 0
   \<and> \<not> is_finite (RollPI (StabilizationSettings (snd (AutotuneTick \<lparr>state = AT_SET, lastUpdateTime = 0\<rparr> zero_measured_world))) ! STABILIZATIONSETTINGS_ROLLPI_KP)
   \<and> \<not> is_finite (RollPI (StabilizationSettings (snd (AutotuneTick \<lparr>state = AT_SET, lastUpdateTime = 0\<rparr> zero_measured_world))) ! STABILIZATIONSETTINGS_ROLLPI_KI)
   \<and> \<not> is_finite (RollRatePID (StabilizationSettings (snd (AutotuneTick \<lparr>state = AT_SET, lastUpdateTime = 0\<rparr> zero_measured_world))) ! STABILIZATIONSETTINGS_ROLLRATEPID_KI)
   \<and> \<not> is_finite (PitchRatePID (StabilizationSettings (snd (AutotuneTick \<lparr>state = AT_SET, lastUpdateTime = 0\<rparr> zero_measured_world))) ! STABILIZATIONSETTINGS_ROLLRATEPID_KP)
   \<and> \<not> is_finite (PitchRatePID (StabilizationSettings (snd (AutotuneTick \<lparr>state = AT_SET, lastUpdateTime = 0\<rparr> zero_measured_world))) ! STABILIZATIONSETTINGS_ROLLRATEPID_KI)
   \<and> is_finite (RollRatePID (StabilizationSettings (snd (AutotuneTick \<lparr>state = AT_SET, lastUpdateTime = 0\<rparr> demo_world))) ! STABILIZATIONSETTINGS_ROLLRATEPID_KP)
   \<and> is_finite (RollRatePID (StabilizationSettings (snd (AutotuneTick \<lparr>state = AT_SET, lastUpdateTime = 0\<rparr> demo_world))) ! STABILIZATIONSETTINGS_ROLLRATEPID_KI)
   \<and> is_finite (RollPI (StabilizationSettings (snd (AutotuneTick \<lparr>state = AT_SET, lastUpdateTime = 0\<rparr> demo_world))) ! STABILIZATIONSETTINGS_ROLLPI_KP)
   \<and> is_finite (RollPI (StabilizationSettings (snd (AutotuneTick \<lparr>state = AT_SET, lastUpdateTime = 0\<rparr> demo_world))) ! STABILIZATIONSETTINGS_ROLLPI_KI)
   \<and> Period (RelayTuning demo_world) ! 0 = Finite 500
   \<and> Gain (RelayTuning demo_world) ! 0 = Finite (3 / 10)"
proof -
  have h: "state \<lparr>state = AT_SET, lastUpdateTime = 0\<rparr> = AT_SET"
    "FlightMode (FlightStatus zero_measured_world) = FLIGHTSTATUS_FLIGHTMODE_AUTOTUNE"
    "Behavior (RelayTuningSettings zero_measured_world) \<noteq> RELAYTUNINGSETTINGS_BEHAVIOR_MEASURE"
    "STABILIZATIONSETTINGS_ROLLRATEPID_KI < length (RollRatePID (StabilizationSettings zero_measured_world))"
    "STABILIZATIONSETTINGS_ROLLPI_KI < length (RollPI (StabilizationSettings zero_measured_world))"
    "STABILIZATIONSETTINGS_ROLLRATEPID_KI < length (PitchRatePID (StabilizationSettings zero_measured_world))"
    "STABILIZATIONSETTINGS_ROLLPI_KI < length (PitchPI (StabilizationSettings zero_measured_world))"
    "Period (RelayTuning zero_measured_world) ! 0 = Finite 0"
    "Gain (RelayTuning zero_measured_world) ! 0 = Finite (3 / 10)"
    "Period (RelayTuning zero_measured_world) ! 1 = Finite 500"
    "Gain (RelayTuning zero_measured_world) ! 1 = Finite 0"
    by (simp_all add: zero_measured_world_def demo_world_def demo_settings_def)
  have d: "state \<lparr>state = AT_SET, lastUpdateTime = 0\<rparr> = AT_SET"
    "FlightMode (FlightStatus demo_world) = FLIGHTSTATUS_FLIGHTMODE_AUTOTUNE"
    "Behavior (RelayTuningSettings demo_world) \<noteq> RELAYTUNINGSETTINGS_BEHAVIOR_MEASURE"
    "STABILIZATIONSETTINGS_ROLLRATEPID_KI < length (RollRatePID (StabilizationSettings demo_world))"
    "STABILIZATIONSETTINGS_ROLLPI_KI < length (RollPI (StabilizationSettings demo_world))"
    "STABILIZATIONSETTINGS_ROLLRATEPID_KI < length (PitchRatePID (StabilizationSettings demo_world))"
    "STABILIZATIONSETTINGS_ROLLPI_KI < length (PitchPI (StabilizationSettings demo_world))"
    "Period (RelayTuning demo_world) ! 0 = Finite 500"
    "Gain (RelayTuning demo_world) ! 0 = Finite (3 / 10)"
    "Period (RelayTuning demo_world) ! 1 = Finite 500"
    "Gain (RelayTuning demo_world) ! 1 = Finite (3 / 10)"
    by (simp_all add: demo_world_def demo_settings_def)
  have ss: "StabilizationSettings demo_world = demo_settings"
    by (simp add: demo_world_def)
  have roll: "RollRatePID (StabilizationSettings (snd (AutotuneTick \<lparr>state = AT_SET, lastUpdateTime = 0\<rparr> demo_world)))
      = [Finite (40 / (9 * M_PI)), Finite (160 / 81), Finite 0]"
    "RollPI (StabilizationSettings (snd (AutotuneTick \<lparr>state = AT_SET, lastUpdateTime = 0\<rparr> demo_world)))
      = [Finite (4 * M_PI / 15), Finite (16 * M_PI * M_PI / 1125), Finite 50]"
    using d(2,3) by (simp_all add: tick_settings ss demo_stored)
  from C10_unguarded_division [OF h] C10_unguarded_division [OF d] h(3) h(8) h(11) d(8) d(9) roll
  show ?thesis
    by simp
qed

end
